theory Spec2Isabelle
  imports Main "HOL-Library.Char_ord" "HOL-Library.List_Lexorder" "HOL-Library.Sublist"
begin

section \<open>Python values and exceptions\<close>

text \<open>
  The deployment scripts are Python 2. An exception that leaves a function is a value
  \<open>Inl e\<close> of the result; a normal return is \<open>Inr x\<close>. The string carried by an exception
  is its message (for \<open>KeyError\<close>, the missing key).
\<close>

datatype exn =
    KeyError string
  | TypeError string
  | AttributeError string
  | IndexError string
  | ImportError string
  | IOError string
  | Exception string
  | Abort string

text \<open>
  Values as \<open>yaml.load\<close> and \<open>json.loads\<close> build them, and as the Fabric environment
  holds them. \<open>PStr\<close> is Python 2's byte string type \<open>str\<close>, \<open>PUnicode\<close> its \<open>unicode\<close>;
  a dictionary keeps its entries as a list of pairs with string keys.
\<close>

datatype pyval =
    PNone
  | PBool bool
  | PInt int
  | PStr string
  | PUnicode string
  | PList "pyval list"
  | PDict "(string \<times> pyval) list"

text \<open>\<open>str.startswith\<close> and \<open>str.lower\<close> (bytes \<open>A\<close> to \<open>Z\<close> only, as in the C locale).\<close>

definition startswith :: "string \<Rightarrow> string \<Rightarrow> bool" where
  "startswith s p = (take (length p) s = p)"

definition lower_char :: "char \<Rightarrow> char" where
  "lower_char c =
     (if CHR ''A'' \<le> c \<and> c \<le> CHR ''Z'' then char_of (of_char c + (32::nat)) else c)"

definition lower :: "string \<Rightarrow> string" where
  "lower s = map lower_char s"

text \<open>Sequencing of computations that may raise: the first exception is the result.\<close>

definition and_then :: "exn + 'a \<Rightarrow> ('a \<Rightarrow> exn + 'b) \<Rightarrow> exn + 'b" where
  "and_then r f = (case r of Inl e \<Rightarrow> Inl e | Inr x \<Rightarrow> f x)"

section \<open>The main configuration: \<open>_read_main_config\<close> (fabfile.py)\<close>

text \<open>
  \<open>full_data\<close> is what \<open>yaml.load\<close> returned for \<open>main.yaml\<close>: a dictionary whose
  values are lists of names or YAML's null. \<open>full_data k = None\<close> is an absent key,
  \<open>Some None\<close> a key holding null, and \<open>Some (Some xs)\<close> a key holding the list \<open>xs\<close>.

  \<open>full_data['packages']\<close> and \<open>full_data['libraries']\<close> are plain subscripts, which raise
  \<open>KeyError\<close> on an absent key; \<open>x if x else []\<close> replaces null and the empty list by the
  empty list. \<open>full_data.get('custom_ignore', [])\<close> defaults an absent key only: a null
  value is returned as \<open>None\<close>. The libraries are returned sorted. (The logger call
  between the reads and the return only prints the two joined lists.)
\<close>

type_synonym manifest = "string \<rightharpoonup> string list option"

definition or_empty :: "string list option \<Rightarrow> string list" where
  "or_empty v = (case v of None \<Rightarrow> [] | Some xs \<Rightarrow> (if xs \<noteq> [] then xs else []))"

definition read_main_config ::
  "manifest \<Rightarrow> exn + (string list \<times> string list \<times> string list option)" where
  "read_main_config full_data =
     (case full_data ''packages'' of
        None \<Rightarrow> Inl (KeyError ''packages'')
      | Some pv \<Rightarrow>
          (let packages = or_empty pv in
           case full_data ''libraries'' of
             None \<Rightarrow> Inl (KeyError ''libraries'')
           | Some lv \<Rightarrow>
               (let libraries = or_empty lv;
                    custom_ignore =
                      (case full_data ''custom_ignore'' of None \<Rightarrow> Some [] | Some v \<Rightarrow> v)
                in Inr (packages, sort libraries, custom_ignore))))"

section \<open>JSON with comments: \<open>_parse_json\<close> (\<open>cloudbio/chef_utils.py\<close>)\<close>

text \<open>
  The comment pattern is
  \<^verbatim>\<open>(^)?[^\S\n]*/(?:\*(.*?)\*/[^\S\n]*|/[^\n]*)($)?\<close>
  compiled with \<open>DOTALL\<close> and \<open>MULTILINE\<close>. On a byte string \<open>[^\S\n]\<close> is a white
  space character other than the newline: space, tab, vertical tab, form feed or
  carriage return.
\<close>

definition hws :: "char \<Rightarrow> bool" where
  "hws c = (c = CHR '' '' \<or> c = CHR 0x09 \<or> c = CHR 0x0B \<or> c = CHR 0x0C \<or> c = CHR 0x0D)"

text \<open>
  \<open>find_close t\<close> is the position of the first \<open>*/\<close> in \<open>t\<close>: where the lazy \<open>(.*?)\<close>
  stops, the dot matching newlines too.
\<close>

fun find_close :: "string \<Rightarrow> nat option" where
  "find_close (a # b # cs) =
     (if a = CHR ''*'' \<and> b = CHR ''/'' then Some 0 else map_option Suc (find_close (b # cs)))"
| "find_close cs = None"

text \<open>
  \<open>comment_match s\<close> is the length of the match of the pattern at the start of \<open>s\<close>, if
  there is one. The greedy \<open>[^\S\n]*\<close> takes the whole run of blanks (giving some back
  never helps: the next character must be \<open>/\<close>); then comes \<open>/*\<close>, the text up to the
  first \<open>*/\<close> and the blanks after it, or \<open>//\<close> and the rest of the line without its
  newline. The optional groups \<open>(^)?\<close> and \<open>($)?\<close> have no width.
\<close>

definition comment_match :: "string \<Rightarrow> nat option" where
  "comment_match s =
     (let k = length (takeWhile hws s); r = dropWhile hws s in
      if take 2 r = ''/*'' then
        (case find_close (drop 2 r) of
           Some j \<Rightarrow> Some (k + 2 + j + 2 + length (takeWhile hws (drop (2 + j + 2) r)))
         | None \<Rightarrow> None)
      else if take 2 r = ''//'' then
        Some (k + 2 + length (takeWhile (\<lambda>c. c \<noteq> CHR 0x0A) (drop 2 r)))
      else None)"

text \<open>
  \<open>_comment_re.search\<close>: the match at the leftmost position that has one, as the pair
  of \<open>match.start()\<close> and \<open>match.end()\<close>.
\<close>

fun comment_search :: "string \<Rightarrow> (nat \<times> nat) option" where
  "comment_search [] = map_option (\<lambda>n. (0, n)) (comment_match [])"
| "comment_search (c # cs) =
     (case comment_match (c # cs) of
        Some n \<Rightarrow> Some (0, n)
      | None \<Rightarrow> map_option (\<lambda>(a, b). (Suc a, Suc b)) (comment_search cs))"

text \<open>
  The \<open>while match:\<close> loop: cut the match out, search again from the start. Every match
  has at least two characters, so the loop ends.
\<close>

function strip_comments :: "string \<Rightarrow> string" where
  "strip_comments content =
     (case comment_search content of
        None \<Rightarrow> content
      | Some (a, b) \<Rightarrow> strip_comments (take a content @ drop b content))"
  by pat_completeness auto
termination
proof -
  have close: "j + 2 \<le> length s" if "find_close s = Some j" for s j
    using that by (induction s arbitrary: j rule: find_close.induct) (auto split: if_splits)
  have two: "2 \<le> length r" if "take 2 r = [a, b]" for r :: string and a b
    using that by (cases r; cases "tl r") auto
  have match: "2 \<le> n \<and> n \<le> length s" if m: "comment_match s = Some n" for s n
  proof -
    define k where "k = length (takeWhile hws s)"
    define r where "r = dropWhile hws s"
    have len: "length s = k + length r"
      unfolding k_def r_def by (metis length_append takeWhile_dropWhile_id)
    show ?thesis
    proof (cases "take 2 r = ''/*''")
      case True
      then obtain j where j: "find_close (drop 2 r) = Some j"
        and n: "n = k + 2 + j + 2 + length (takeWhile hws (drop (2 + j + 2) r))"
        using m unfolding comment_match_def k_def r_def Let_def
        by (auto split: option.splits)
      have "j + 2 \<le> length r - 2" using close[OF j] by simp
      moreover have "2 \<le> length r" using True by (rule two)
      moreover have "length (takeWhile hws (drop (2 + j + 2) r)) \<le> length r - (2 + j + 2)"
        by (metis length_drop length_takeWhile_le)
      ultimately show ?thesis using n len by linarith
    next
      case False
      then have sl: "take 2 r = ''//''"
        and n: "n = k + 2 + length (takeWhile (\<lambda>c. c \<noteq> CHR 0x0A) (drop 2 r))"
        using m unfolding comment_match_def k_def r_def Let_def
        by (auto split: if_splits)
      have "2 \<le> length r" using sl by (rule two)
      moreover have "length (takeWhile (\<lambda>c. c \<noteq> CHR 0x0A) (drop 2 r)) \<le> length r - 2"
        by (metis length_drop length_takeWhile_le)
      ultimately show ?thesis using n len by linarith
    qed
  qed
  have search: "a < b \<and> b \<le> length s" if "comment_search s = Some (a, b)" for s a b
    using that
  proof (induction s arbitrary: a b)
    case Nil
    then show ?case using match[of "[]"] by auto
  next
    case (Cons c cs)
    show ?case
    proof (cases "comment_match (c # cs)")
      case None
      with Cons.prems obtain a' b'
        where "comment_search cs = Some (a', b')" "a = Suc a'" "b = Suc b'"
        by auto
      with Cons.IH show ?thesis by auto
    next
      case (Some n)
      with Cons.prems have "a = 0" "b = n" by auto
      with match[OF Some] show ?thesis by auto
    qed
  qed
  show ?thesis
    by (relation "measure length") (auto dest!: search)
qed

declare strip_comments.simps [simp del]

text \<open>A text without the blanks at its end (for stating what a removed comment leaves).\<close>

definition rstrip_hws :: "string \<Rightarrow> string" where
  "rstrip_hws s = rev (dropWhile hws (rev s))"

text \<open>
  \<open>_parse_json\<close> reads the file, strips the comments and hands the rest to
  \<open>json.loads\<close>. Reading the file and the standard library's JSON parser are parameters.
\<close>

definition parse_json ::
  "(string \<Rightarrow> exn + string) \<Rightarrow> (string \<Rightarrow> exn + 'j) \<Rightarrow> string \<Rightarrow> exn + 'j" where
  "parse_json read_file json_loads filename =
     and_then (read_file filename) (\<lambda>content. json_loads (strip_comments content))"

section \<open>Commands, replies and the history of a run\<close>

text \<open>
  A function of the fabfile acts on the remote host and on the local files through
  Fabric and through modules of the package that are outside this development. Each such
  call is an \<open>event\<close>; a run is the list of its events in order (the history). What a
  call returns, or the exception it raises, is the reply of the \<open>world\<close> to the event
  after the history so far.
\<close>

datatype event =
    SetupLogging
  | TimeStats string string
  | LogDebug string
  | ConfigureFabricEnvironment "string option"
  | GetConfigFile string
  | YamlToPackages string "string list option"
  | LoadYaml string
  | Import string
  | CallEntry string string
  | Exists string
  | Run string
  | SafeSudo string
  | Append string string
  | Rewrite string "string list"
  | MakeTmpDir
  | LeaveTmpDir string
  | InDir string event

text \<open>
  \<open>TimeStats action event\<close> is \<open>_print_time_stats(action, event)\<close>, which logs the two
  words with the current time; \<open>GetConfigFile name\<close> is \<open>get_config_file(env, name).base\<close>;
  \<open>YamlToPackages\<close> is \<open>_yaml_to_packages\<close>; \<open>LoadYaml\<close> is \<open>open\<close> with \<open>yaml.load\<close>;
  \<open>Import name\<close> is \<open>__import__(name)\<close>, replied to with the set of attributes of the
  module; \<open>CallEntry m f\<close> is the call \<open>f(env)\<close> of the function \<open>f\<close> of module \<open>m\<close>;
  \<open>Exists\<close>, \<open>Run\<close> and \<open>Append\<close> are Fabric's \<open>exists\<close>, \<open>run\<close> and \<open>append\<close>, \<open>SafeSudo\<close>
  is \<open>env.safe_sudo\<close>; \<open>Rewrite name items\<close> is the flavor's
  \<open>rewrite_config_items(name, items)\<close>; \<open>MakeTmpDir\<close> and \<open>LeaveTmpDir\<close> are entering
  and leaving \<open>_make_tmp_dir()\<close>; \<open>InDir d e\<close> is \<open>e\<close> inside \<open>with cd(d)\<close>.
\<close>

text \<open>
  A per-language configuration file, as a dictionary with string values (the two
  repository addresses of \<open>r-libs.yaml\<close>) and lists of names.
\<close>

record config =
  strs :: "string \<rightharpoonup> string"
  lists :: "string \<rightharpoonup> string list"

record world =
  w_unit :: "event list \<Rightarrow> event \<Rightarrow> exn + unit"
  w_bool :: "event list \<Rightarrow> event \<Rightarrow> exn + bool"
  w_str :: "event list \<Rightarrow> event \<Rightarrow> exn + string"
  w_list :: "event list \<Rightarrow> event \<Rightarrow> exn + string list"
  w_pkgs :: "event list \<Rightarrow> event \<Rightarrow> exn + (string list \<times> (string \<rightharpoonup> string))"
  w_module :: "event list \<Rightarrow> event \<Rightarrow> exn + (string \<Rightarrow> bool)"
  w_config :: "event list \<Rightarrow> event \<Rightarrow> exn + config"

text \<open>The fields of Fabric's \<open>env\<close> that the functions below read.\<close>

record fab_env =
  local_install :: string
  system_install :: string
  python_version_ext :: string
  ruby_version_ext :: "string option"
  pip_cmd :: string
  use_sudo :: bool
  nixpkgs :: bool
  is_ec2_image :: "string option"
  distribution :: string

text \<open>
  \<open>ruby_version_ext\<close> is \<open>None\<close> when the attribute is not set (\<open>getattr\<close> with a
  default); \<open>pip_cmd\<close> is what \<open>_pip_cmd(env)\<close> returns; \<open>is_ec2_image\<close> is \<open>None\<close> when
  \<open>env.has_key("is_ec2_image")\<close> is false.
\<close>

text \<open>
  An action takes the state of the run and returns its result, an exception or a value,
  with the new state. An exception ends the enclosing sequence.
\<close>

type_synonym ('s, 'a) act = "'s \<Rightarrow> (exn + 'a) \<times> 's"

definition ret :: "'a \<Rightarrow> ('s, 'a) act" where
  "ret x = (\<lambda>s. (Inr x, s))"

definition throw :: "exn \<Rightarrow> ('s, 'a) act" where
  "throw e = (\<lambda>s. (Inl e, s))"

definition bnd :: "('s, 'a) act \<Rightarrow> ('a \<Rightarrow> ('s, 'b) act) \<Rightarrow> ('s, 'b) act" where
  "bnd m f = (\<lambda>s. case m s of (Inl e, s') \<Rightarrow> (Inl e, s') | (Inr x, s') \<Rightarrow> f x s')"

definition thn :: "('s, 'a) act \<Rightarrow> ('s, 'b) act \<Rightarrow> ('s, 'b) act" where
  "thn m n = bnd m (\<lambda>x. n)"

definition when_do :: "bool \<Rightarrow> ('s, unit) act \<Rightarrow> ('s, unit) act" where
  "when_do b m = (if b then m else ret ())"

text \<open>\<open>try: m except E: handler\<close>, for the exceptions \<open>E\<close> that satisfy \<open>is_E\<close>.\<close>

definition try_except :: "('s, 'a) act \<Rightarrow> (exn \<Rightarrow> bool) \<Rightarrow> ('s, 'a) act \<Rightarrow> ('s, 'a) act" where
  "try_except m is_E handler =
     (\<lambda>s. case m s of
             (Inl e, s') \<Rightarrow> (if is_E e then handler s' else (Inl e, s'))
           | (Inr x, s') \<Rightarrow> (Inr x, s'))"

fun for_each :: "('a \<Rightarrow> ('s, unit) act) \<Rightarrow> 'a list \<Rightarrow> ('s, unit) act" where
  "for_each body [] = ret ()"
| "for_each body (x # xs) = thn (body x) (for_each body xs)"

definition ask :: "(event list \<Rightarrow> event \<Rightarrow> exn + 'a) \<Rightarrow> event \<Rightarrow> (event list, 'a) act" where
  "ask reply ev = (\<lambda>h. (reply h ev, h @ [ev]))"

definition run :: "world \<Rightarrow> string \<Rightarrow> (event list, string) act" where
  "run w cmd = ask (w_str w) (Run cmd)"

definition safe_sudo :: "world \<Rightarrow> string \<Rightarrow> (event list, string) act" where
  "safe_sudo w cmd = ask (w_str w) (SafeSudo cmd)"

definition append_file :: "world \<Rightarrow> string \<Rightarrow> string \<Rightarrow> (event list, unit) act" where
  "append_file w filename text = ask (w_unit w) (Append filename text)"

definition rewrite_config_items ::
  "world \<Rightarrow> string \<Rightarrow> string list \<Rightarrow> (event list, string list) act" where
  "rewrite_config_items w name items = ask (w_list w) (Rewrite name items)"

text \<open>Subscripts \<open>config[key]\<close>: an absent key raises \<open>KeyError\<close>.\<close>

definition cfg_str :: "config \<Rightarrow> string \<Rightarrow> ('s, string) act" where
  "cfg_str cfg key = (case strs cfg key of None \<Rightarrow> throw (KeyError key) | Some v \<Rightarrow> ret v)"

definition cfg_list :: "config \<Rightarrow> string \<Rightarrow> ('s, string list) act" where
  "cfg_list cfg key = (case lists cfg key of None \<Rightarrow> throw (KeyError key) | Some v \<Rightarrow> ret v)"

text \<open>\<open>sep.join(xs)\<close> and \<open>s.replace(a, b)\<close> for single characters \<open>a\<close> and \<open>b\<close>.\<close>

fun join :: "string \<Rightarrow> string list \<Rightarrow> string" where
  "join sep [] = []"
| "join sep [x] = x"
| "join sep (x # y # ys) = x @ sep @ join sep (y # ys)"

fun replace :: "string \<Rightarrow> char \<Rightarrow> char \<Rightarrow> string" where
  "replace [] a b = []"
| "replace (c # cs) a b = (if c = a then b else c) # replace cs a b"

definition quoted :: "string \<Rightarrow> string" where
  "quoted s = [CHR 0x27] @ s @ [CHR 0x27]"

section \<open>Chef node properties: \<open>build_chef_properties\<close> (\<open>cloudbio/chef_utils.py\<close>)\<close>

text \<open>
  The loop body of \<open>build_chef_properties\<close>, for one \<open>(key, value)\<close> of the environment:
  the entry is skipped when \<open>key\<close> itself is a key of the dictionary built so far or the
  value is not a \<open>str\<close>; otherwise it is stored, under the key without \<open>chef_\<close> when the
  key starts with it, and under \<open>cloudbiolinux_\<close> followed by the key when not.
\<close>

fun isinstance_str :: "pyval \<Rightarrow> bool" where
  "isinstance_str (PStr s) = True"
| "isinstance_str v = False"

definition chef_property_step ::
  "(string \<rightharpoonup> pyval) \<Rightarrow> string \<times> pyval \<Rightarrow> (string \<rightharpoonup> pyval)" where
  "chef_property_step json_properties kv =
     (let key = fst kv; val = snd kv in
      if json_properties key \<noteq> None \<or> \<not> isinstance_str val then json_properties
      else if startswith key ''chef_''
        then json_properties(drop (length ''chef_'') key \<mapsto> val)
        else json_properties(''cloudbiolinux_'' @ key \<mapsto> val))"

text \<open>
  \<open>env.iteritems()\<close> yields the entries of the environment in the dictionary's own
  order: the model takes them as a list in that order. \<open>json_properties\<close> is the
  dictionary that \<open>_parse_json\<close> returned.
\<close>

definition build_chef_properties ::
  "(string \<times> pyval) list \<Rightarrow> (string \<rightharpoonup> pyval) \<Rightarrow> (string \<rightharpoonup> pyval)" where
  "build_chef_properties env json_properties = foldl chef_property_step json_properties env"

text \<open>The key under which an environment entry is stored when it is not skipped.\<close>

definition chef_key :: "string \<Rightarrow> string" where
  "chef_key key =
     (if startswith key ''chef_'' then drop (length ''chef_'') key else ''cloudbiolinux_'' @ key)"

section \<open>The library installers (fabfile.py)\<close>

subsection \<open>\<open>_r_library_installer\<close>\<close>

definition repo_info :: "string \<Rightarrow> string \<Rightarrow> string" where
  "repo_info cranrepo biocrepo =
     ''\<newline>    cran.repos <- getOption(\"repos\")\<newline>'' @
     ''    cran.repos[\"CRAN\" ] <- \"'' @ cranrepo @ ''\"\<newline>'' @
     ''    options(repos=cran.repos)\<newline>'' @
     ''    source(\"'' @ biocrepo @ ''\")\<newline>    ''"

definition install_fn :: string where
  "install_fn =
     ''\<newline>    repo.installer <- function(repos, install.fn) {\<newline>'' @
     ''      update.or.install <- function(pname) {\<newline>'' @
     ''        if (pname %in% installed.packages())\<newline>'' @
     ''          update.packages(lib.loc=c(pname), repos=repos, ask=FALSE)\<newline>'' @
     ''        else\<newline>'' @
     ''          install.fn(pname)\<newline>'' @
     ''      }\<newline>'' @
     ''    }\<newline>    ''"

definition r_names :: "string list \<Rightarrow> string" where
  "r_names ps = join '', '' (map (\<lambda>p. ''\"'' @ p @ ''\"'') ps)"

definition std_install :: "string list \<Rightarrow> string" where
  "std_install cran =
     ''\<newline>    std.pkgs <- c('' @ r_names cran @ '')\<newline>'' @
     ''    std.installer = repo.installer(cran.repos, install.packages)\<newline>'' @
     ''    lapply(std.pkgs, std.installer)\<newline>    ''"

definition bioc_install :: "string list \<Rightarrow> string" where
  "bioc_install bioc =
     ''\<newline>    bioc.pkgs <- c('' @ r_names bioc @ '')\<newline>'' @
     ''    bioc.installer = repo.installer(biocinstallRepos(), biocLite)\<newline>'' @
     ''    lapply(bioc.pkgs, bioc.installer)\<newline>    ''"

definition final_update :: string where
  "final_update =
     ''\<newline>    update.packages(repos=biocinstallRepos(), ask=FALSE)\<newline>'' @
     ''    update.packages(ask=FALSE)\<newline>    ''"

definition r_library_installer :: "world \<Rightarrow> fab_env \<Rightarrow> config \<Rightarrow> (event list, unit) act" where
  "r_library_installer w env cfg =
     (let out_file = ''install_packages.R'' in
      bnd (ask (w_bool w) (Exists out_file)) (\<lambda>there.
      thn (when_do there (thn (run w (''rm -f '' @ out_file)) (ret ())))
     (thn (run w (''touch '' @ out_file))
     (bnd (cfg_str cfg ''cranrepo'') (\<lambda>cranrepo.
      bnd (cfg_str cfg ''biocrepo'') (\<lambda>biocrepo.
      thn (append_file w out_file (repo_info cranrepo biocrepo))
     (thn (append_file w out_file install_fn)
     (bnd (cfg_list cfg ''cran'') (\<lambda>cran.
      thn (append_file w out_file (std_install cran))
     (bnd (cfg_list cfg ''bioc'') (\<lambda>bioc.
      thn (append_file w out_file (bioc_install bioc))
     (thn (append_file w out_file final_update)
     (thn (safe_sudo w (''Rscript '' @ out_file))
     (thn (run w (''rm -f '' @ out_file)) (ret ())))))))))))))))"

subsection \<open>\<open>_python_library_installer\<close>\<close>

definition python_library_installer ::
  "world \<Rightarrow> fab_env \<Rightarrow> config \<Rightarrow> (event list, unit) act" where
  "python_library_installer w env cfg =
     (let version_ext =
            (if python_version_ext env \<noteq> [] then ''-'' @ python_version_ext env else []) in
      thn (safe_sudo w (''easy_install'' @ version_ext @ '' -U pip''))
     (bnd (cfg_list cfg ''pypi'') (\<lambda>pypi.
      bnd (rewrite_config_items w ''python'' pypi) (\<lambda>items.
      for_each (\<lambda>pname. thn (safe_sudo w (pip_cmd env @ '' install --upgrade '' @ pname)) (ret ()))
        items))))"

subsection \<open>\<open>_ruby_library_installer\<close>\<close>

text \<open>
  \<open>gem_info.split("\n")\<close>, then \<open>l.rstrip("\r")\<close> for every line \<open>l\<close>, keeping the lines
  that are not empty after it.
\<close>

fun split_lines :: "string \<Rightarrow> string list" where
  "split_lines [] = [[]]"
| "split_lines (c # cs) =
     (if c = CHR 0x0A then [] # split_lines cs
      else (case split_lines cs of l # ls \<Rightarrow> (c # l) # ls | [] \<Rightarrow> [[c]]))"

definition rstrip_cr :: "string \<Rightarrow> string" where
  "rstrip_cr l = rev (dropWhile (\<lambda>c. c = CHR 0x0D) (rev l))"

definition gem_lines :: "string \<Rightarrow> string list" where
  "gem_lines gem_info = [rstrip_cr l. l \<leftarrow> split_lines gem_info, rstrip_cr l \<noteq> []]"

definition gem_ext :: "fab_env \<Rightarrow> string" where
  "gem_ext env = (case ruby_version_ext env of None \<Rightarrow> [] | Some e \<Rightarrow> e)"

definition gem_list_cmd :: "fab_env \<Rightarrow> string" where
  "gem_list_cmd env = ''gem'' @ gem_ext env @ '' list --no-versions''"

definition cur_gems :: "world \<Rightarrow> fab_env \<Rightarrow> (event list, string list) act" where
  "cur_gems w env = bnd (run w (gem_list_cmd env)) (\<lambda>gem_info. ret (gem_lines gem_info))"

definition gem_update_cmd :: "fab_env \<Rightarrow> string \<Rightarrow> string" where
  "gem_update_cmd env gem = ''gem'' @ gem_ext env @ '' update '' @ gem"

definition gem_install_cmd :: "fab_env \<Rightarrow> string \<Rightarrow> string" where
  "gem_install_cmd env gem = ''gem'' @ gem_ext env @ '' install '' @ gem"

text \<open>The \<open>for gem in ...\<close> loop, with the variable \<open>installed\<close> as an argument.\<close>

fun ruby_loop ::
  "world \<Rightarrow> fab_env \<Rightarrow> string list \<Rightarrow> string list \<Rightarrow> (event list, unit) act" where
  "ruby_loop w env [] installed = ret ()"
| "ruby_loop w env (gem # gems) installed =
     bnd (if gem \<notin> set installed then cur_gems w env else ret installed) (\<lambda>installed.
     thn (if gem \<in> set installed
          then safe_sudo w (gem_update_cmd env gem)
          else safe_sudo w (gem_install_cmd env gem))
         (ruby_loop w env gems installed))"

definition ruby_library_installer ::
  "world \<Rightarrow> fab_env \<Rightarrow> config \<Rightarrow> (event list, unit) act" where
  "ruby_library_installer w env cfg =
     bnd (cur_gems w env) (\<lambda>installed.
     bnd (cfg_list cfg ''gems'') (\<lambda>gems.
     bnd (rewrite_config_items w ''ruby'' gems) (\<lambda>items.
     ruby_loop w env items installed)))"

subsection \<open>\<open>_perl_library_installer\<close>\<close>

text \<open>
  \<open>_make_tmp_dir()\<close> is entered, which gives the directory, and left when the block
  under it has ended without an exception.
\<close>

definition perl_library_installer ::
  "world \<Rightarrow> fab_env \<Rightarrow> config \<Rightarrow> (event list, unit) act" where
  "perl_library_installer w env cfg =
     bnd (ask (w_str w) MakeTmpDir) (\<lambda>tmp_dir.
     thn (ask (w_str w) (InDir tmp_dir (Run (''wget --no-check-certificate -O cpanm '' @
             ''https://raw.github.com/miyagawa/cpanminus/master/cpanm''))))
    (thn (ask (w_str w) (InDir tmp_dir (Run ''chmod a+rwx cpanm'')))
    (thn (ask (w_str w) (InDir tmp_dir (SafeSudo (''mv cpanm '' @ system_install env @ ''/bin''))))
    (thn (ask (w_unit w) (LeaveTmpDir tmp_dir))
    (let sudo_str = (if use_sudo env then ''--sudo'' else []) in
     bnd (cfg_list cfg ''cpan'') (\<lambda>cpan.
     bnd (rewrite_config_items w ''perl'' cpan) (\<lambda>items.
     for_each (\<lambda>lib. thn (run w (''cpanm '' @ sudo_str @ '' --skip-installed --notest '' @ lib @
                                   '' < /dev/null'')) (ret ()))
       items)))))))"

subsection \<open>\<open>_clojure_library_installer\<close> and \<open>_haskell_library_installer\<close>\<close>

definition clojure_library_installer ::
  "world \<Rightarrow> fab_env \<Rightarrow> config \<Rightarrow> (event list, unit) act" where
  "clojure_library_installer w env cfg =
     bnd (cfg_list cfg ''cljr'') (\<lambda>cljr.
     for_each (\<lambda>lib. thn (run w (''cljr install '' @ lib)) (ret ())) cljr)"

definition haskell_library_installer ::
  "world \<Rightarrow> fab_env \<Rightarrow> config \<Rightarrow> (event list, unit) act" where
  "haskell_library_installer w env cfg =
     thn (run w ''cabal update'')
    (bnd (cfg_list cfg ''cabal'') (\<lambda>cabal.
     for_each (\<lambda>lib.
        (let sudo_str = (if use_sudo env then ''--root-cmd=sudo'' else []) in
         thn (run w (''cabal install '' @ sudo_str @ '' --global '' @ lib)) (ret ())))
       cabal))"

subsection \<open>The dispatch table and \<open>_do_library_installs\<close>\<close>

definition lib_installers ::
  "string \<rightharpoonup> (world \<Rightarrow> fab_env \<Rightarrow> config \<Rightarrow> (event list, unit) act)" where
  "lib_installers = map_of
     [(''r-libs'', r_library_installer),
      (''python-libs'', python_library_installer),
      (''ruby-libs'', ruby_library_installer),
      (''perl-libs'', perl_library_installer),
      (''clojure-libs'', clojure_library_installer),
      (''haskell-libs'', haskell_library_installer)]"

definition do_library_installs ::
  "world \<Rightarrow> fab_env \<Rightarrow> string list \<Rightarrow> (event list, unit) act" where
  "do_library_installs w env to_install =
     for_each (\<lambda>iname.
        bnd (ask (w_str w) (GetConfigFile (iname @ ''.yaml''))) (\<lambda>yaml_file.
        bnd (ask (w_config w) (LoadYaml yaml_file)) (\<lambda>cfg.
        (case lib_installers iname of
           None \<Rightarrow> throw (KeyError iname)
         | Some installer \<Rightarrow> installer w env cfg))))
       to_install"

section \<open>Custom installs: \<open>install_custom\<close> and \<open>_custom_installs\<close> (fabfile.py)\<close>

text \<open>
  \<open>pkg_to_group\<close> is \<open>None\<close> (the default of the parameter) or a dictionary from package
  names to group names. \<open>p in pkg_to_group\<close> and \<open>pkg_to_group[p]\<close> raise \<open>TypeError\<close> on
  \<open>None\<close>, and the subscript raises \<open>KeyError\<close> on a name that is not a key.
\<close>

definition contains_key :: "(string \<rightharpoonup> string) option \<Rightarrow> string \<Rightarrow> ('s, bool) act" where
  "contains_key pkg_to_group p =
     (case pkg_to_group of
        None \<Rightarrow> throw (TypeError ''argument of type 'NoneType' is not iterable'')
      | Some g \<Rightarrow> ret (g p \<noteq> None))"

definition subscript :: "(string \<rightharpoonup> string) option \<Rightarrow> string \<Rightarrow> ('s, string) act" where
  "subscript pkg_to_group p =
     (case pkg_to_group of
        None \<Rightarrow> throw (TypeError ''NoneType object has no attribute __getitem__'')
      | Some g \<Rightarrow> (case g p of None \<Rightarrow> throw (KeyError p) | Some grp \<Rightarrow> ret grp))"

fun is_ImportError :: "exn \<Rightarrow> bool" where
  "is_ImportError (ImportError m) = True"
| "is_ImportError e = False"

text \<open>
  The module that \<open>__import__\<close> returned is the set of its attribute names;
  \<open>getattr(mod, name)\<close> raises \<open>AttributeError\<close> for a name outside it, which the second
  \<open>try\<close> turns into the handler's \<open>raise\<close>.
\<close>

definition install_custom ::
  "world \<Rightarrow> fab_env \<Rightarrow> string \<Rightarrow> bool \<Rightarrow> (string \<rightharpoonup> string) option \<Rightarrow> string option
     \<Rightarrow> (event list, unit) act" where
  "install_custom w env p0 automated pkg_to_group0 flavor =
     thn (ask (w_unit w) SetupLogging)
    (let p = lower p0 in
     thn (ask (w_unit w) (TimeStats (''Custom install for '' @ quoted p) ''start''))
    (bnd (if \<not> automated
          then thn (ask (w_unit w) (ConfigureFabricEnvironment flavor))
              (bnd (ask (w_str w) (GetConfigFile ''custom.yaml'')) (\<lambda>pkg_config.
               bnd (ask (w_pkgs w) (YamlToPackages pkg_config None)) (\<lambda>r.
               ret (Some (snd r)))))
          else ret pkg_to_group0) (\<lambda>pkg_to_group.
     bnd (try_except
            (thn (ask (w_unit w) (LogDebug (''Import '' @ p)))
            (bnd (contains_key pkg_to_group p) (\<lambda>listed.
             bnd (if listed then subscript pkg_to_group p else ret p) (\<lambda>mod_name.
             bnd (ask (w_module w) (Import (''cloudbio.custom.'' @ mod_name))) (\<lambda>attrs.
             ret (''cloudbio.custom.'' @ mod_name, attrs))))))
            is_ImportError
            (bnd (subscript pkg_to_group p) (\<lambda>grp.
             throw (ImportError (''Need to write a '' @ grp @ '' module in custom.'')))))
       (\<lambda>modl.
     (let replace_chars = [CHR ''-''];
          p = foldl (\<lambda>p to_replace. replace p to_replace CHR ''_'') p replace_chars in
      thn (if snd modl (''install_'' @ p) then ret ()
           else bnd (subscript pkg_to_group p) (\<lambda>grp.
                throw (ImportError (''Need to write a install_'' @ p @
                                    '' function in custom.'' @ grp))))
     (thn (ask (w_unit w) (CallEntry (fst modl) (''install_'' @ p)))
          (ask (w_unit w) (TimeStats (''Custom install for '' @ quoted p) ''end''))))))))"

text \<open>
  \<open>_custom_installs\<close>. The comprehension keeps \<open>p\<close> when \<open>ignore is None or p not in
  ignore\<close>. The function called for every item of the rewritten list is the parameter
  \<open>dispatch\<close>; in the fabfile it is \<open>install_custom\<close>.
\<close>

definition not_ignored :: "string list option \<Rightarrow> string \<Rightarrow> bool" where
  "not_ignored ignore p = (case ignore of None \<Rightarrow> True | Some names \<Rightarrow> p \<notin> set names)"

definition custom_installs_with ::
  "(string \<Rightarrow> bool \<Rightarrow> (string \<rightharpoonup> string) option \<Rightarrow> (event list, unit) act)
     \<Rightarrow> world \<Rightarrow> fab_env \<Rightarrow> string list \<Rightarrow> string list option \<Rightarrow> (event list, unit) act" where
  "custom_installs_with dispatch w env to_install ignore =
     bnd (ask (w_bool w) (Exists (local_install env))) (\<lambda>there.
     thn (when_do (\<not> there) (thn (run w (''mkdir -p '' @ local_install env)) (ret ())))
    (bnd (ask (w_str w) (GetConfigFile ''custom.yaml'')) (\<lambda>pkg_config.
     bnd (ask (w_pkgs w) (YamlToPackages pkg_config (Some to_install))) (\<lambda>r.
     (let packages = fst r; pkg_to_group = snd r;
          packages = filter (not_ignored ignore) packages in
      bnd (rewrite_config_items w ''custom'' packages) (\<lambda>items.
      for_each (\<lambda>p. dispatch p True (Some pkg_to_group)) items))))))"

definition custom_installs ::
  "world \<Rightarrow> fab_env \<Rightarrow> string list \<Rightarrow> string list option \<Rightarrow> (event list, unit) act" where
  "custom_installs w env to_install ignore =
     custom_installs_with (\<lambda>p automated pkg_to_group. install_custom w env p automated pkg_to_group None)
       w env to_install ignore"

section \<open>The phases of an installation: \<open>_perform_install\<close> (fabfile.py)\<close>

text \<open>
  \<open>_perform_install\<close> calls one procedure after the other. The procedures are its
  parameters, so that what is shown of it holds whatever they do; the state \<open>'s\<close> of the
  run is theirs.
\<close>

record 's procedures =
  read_main_config_proc :: "('s, string list \<times> string list \<times> string list option) act"
  configure_and_install_native_packages :: "string list \<Rightarrow> ('s, unit) act"
  setup_nix_sources :: "('s, unit) act"
  nix_packages :: "string list \<Rightarrow> ('s, unit) act"
  update_biolinux_log :: "string option \<Rightarrow> string option \<Rightarrow> ('s, unit) act"
  custom_installs_proc :: "string list \<Rightarrow> string list option \<Rightarrow> ('s, unit) act"
  provision_chef_recipes :: "string list \<Rightarrow> string list option \<Rightarrow> ('s, unit) act"
  do_library_installs_proc :: "string list \<Rightarrow> ('s, unit) act"
  edition_post_install :: "string list \<Rightarrow> ('s, unit) act"
  flavor_post_install :: "('s, unit) act"
  cleanup_space :: "('s, unit) act"
  sudo :: "string \<Rightarrow> ('s, unit) act"
  cleanup_ec2 :: "('s, unit) act"

definition upper_char :: "char \<Rightarrow> char" where
  "upper_char c =
     (if CHR ''a'' \<le> c \<and> c \<le> CHR ''z'' then char_of (of_char c - (32::nat)) else c)"

definition upper :: "string \<Rightarrow> string" where
  "upper s = map upper_char s"

definition perform_install ::
  "'s procedures \<Rightarrow> fab_env \<Rightarrow> string option \<Rightarrow> string option \<Rightarrow> ('s, unit) act" where
  "perform_install pr env target flavor =
     bnd (read_main_config_proc pr) (\<lambda>cfg.
     (let pkg_install = fst cfg; lib_install = fst (snd cfg); custom_ignore = snd (snd cfg) in
      thn (when_do (target = None \<or> target = Some ''packages'')
             (thn (configure_and_install_native_packages pr pkg_install)
             (thn (when_do (nixpkgs env)
                     (thn (setup_nix_sources pr) (nix_packages pr pkg_install)))
                  (update_biolinux_log pr target flavor))))
     (thn (when_do (target = None \<or> target = Some ''custom'')
             (custom_installs_proc pr pkg_install custom_ignore))
     (thn (when_do (target = None \<or> target = Some ''chef_recipes'')
             (provision_chef_recipes pr pkg_install custom_ignore))
     (thn (when_do (target = None \<or> target = Some ''libraries'')
             (do_library_installs_proc pr lib_install))
     (thn (when_do (target = None \<or> target = Some ''post_install'')
             (thn (edition_post_install pr pkg_install) (flavor_post_install pr)))
          (when_do (target = None \<or> target = Some ''cleanup'')
             (thn (cleanup_space pr)
                  (when_do (case is_ec2_image env of
                              None \<Rightarrow> False
                            | Some v \<Rightarrow> upper v \<in> set [''TRUE'', ''YES''])
                     (thn (when_do (distribution env \<in> set [''ubuntu''])
                             (thn (sudo pr (''wget --output-document=cloud-init_0.7.1-0ubuntu4_all.deb '' @
                                            ''https://launchpad.net/ubuntu/+archive/primary/+files/cloud-init_0.7.1-0ubuntu4_all.deb''))
                             (thn (sudo pr ''dpkg -i cloud-init_0.7.1-0ubuntu4_all.deb'')
                                  (sudo pr ''rm -f cloud-init_0.7.1-0ubuntu4_all.deb''))))
                          (cleanup_ec2 pr)))))))))))"

text \<open>
  The six phases by name, in the order of the docstring of \<open>install_biolinux\<close>, and the
  body of each: the block under its \<open>if\<close>.
\<close>

datatype phase = Packages | Custom | ChefRecipes | Libraries | PostInstall | Cleanup

definition phase_order :: "phase list" where
  "phase_order = [Packages, Custom, ChefRecipes, Libraries, PostInstall, Cleanup]"

fun phase_name :: "phase \<Rightarrow> string" where
  "phase_name Packages = ''packages''"
| "phase_name Custom = ''custom''"
| "phase_name ChefRecipes = ''chef_recipes''"
| "phase_name Libraries = ''libraries''"
| "phase_name PostInstall = ''post_install''"
| "phase_name Cleanup = ''cleanup''"

definition selected :: "string option \<Rightarrow> phase \<Rightarrow> bool" where
  "selected target ph = (target = None \<or> target = Some (phase_name ph))"

fun phase_body ::
  "'s procedures \<Rightarrow> fab_env \<Rightarrow> string option \<Rightarrow> string option
     \<Rightarrow> string list \<times> string list \<times> string list option \<Rightarrow> phase \<Rightarrow> ('s, unit) act" where
  "phase_body pr env target flavor cfg Packages =
     thn (configure_and_install_native_packages pr (fst cfg))
    (thn (when_do (nixpkgs env) (thn (setup_nix_sources pr) (nix_packages pr (fst cfg))))
         (update_biolinux_log pr target flavor))"
| "phase_body pr env target flavor cfg Custom =
     custom_installs_proc pr (fst cfg) (snd (snd cfg))"
| "phase_body pr env target flavor cfg ChefRecipes =
     provision_chef_recipes pr (fst cfg) (snd (snd cfg))"
| "phase_body pr env target flavor cfg Libraries =
     do_library_installs_proc pr (fst (snd cfg))"
| "phase_body pr env target flavor cfg PostInstall =
     thn (edition_post_install pr (fst cfg)) (flavor_post_install pr)"
| "phase_body pr env target flavor cfg Cleanup =
     thn (cleanup_space pr)
         (when_do (case is_ec2_image env of
                     None \<Rightarrow> False
                   | Some v \<Rightarrow> upper v \<in> set [''TRUE'', ''YES''])
            (thn (when_do (distribution env \<in> set [''ubuntu''])
                    (thn (sudo pr (''wget --output-document=cloud-init_0.7.1-0ubuntu4_all.deb '' @
                                   ''https://launchpad.net/ubuntu/+archive/primary/+files/cloud-init_0.7.1-0ubuntu4_all.deb''))
                    (thn (sudo pr ''dpkg -i cloud-init_0.7.1-0ubuntu4_all.deb'')
                         (sudo pr ''rm -f cloud-init_0.7.1-0ubuntu4_all.deb''))))
                 (cleanup_ec2 pr)))"

text \<open>Running a list of phases: each phase of the list once, in the order of the list.\<close>

definition run_phases ::
  "'s procedures \<Rightarrow> fab_env \<Rightarrow> string option \<Rightarrow> string option
     \<Rightarrow> string list \<times> string list \<times> string list option \<Rightarrow> phase list \<Rightarrow> ('s, unit) act" where
  "run_phases pr env target flavor cfg phases =
     for_each (phase_body pr env target flavor cfg) phases"

text \<open>
  Procedures that only write the name of the phase they belong to into the state, for
  looking at the order of the calls.
\<close>

definition mark :: "'a \<Rightarrow> ('a list, unit) act" where
  "mark x = (\<lambda>s. (Inr (), s @ [x]))"

definition noting_procedures ::
  "string list \<times> string list \<times> string list option \<Rightarrow> phase list procedures" where
  "noting_procedures cfg =
     \<lparr> read_main_config_proc = ret cfg,
       configure_and_install_native_packages = (\<lambda>pkgs. mark Packages),
       setup_nix_sources = ret (),
       nix_packages = (\<lambda>pkgs. ret ()),
       update_biolinux_log = (\<lambda>target flavor. ret ()),
       custom_installs_proc = (\<lambda>pkgs ignore. mark Custom),
       provision_chef_recipes = (\<lambda>pkgs ignore. mark ChefRecipes),
       do_library_installs_proc = (\<lambda>libs. mark Libraries),
       edition_post_install = (\<lambda>pkgs. mark PostInstall),
       flavor_post_install = ret (),
       cleanup_space = mark Cleanup,
       sudo = (\<lambda>cmd. ret ()),
       cleanup_ec2 = ret () \<rparr>"

section \<open>Launching CloudMan: \<open>cloudman_launch\<close> (cloudbio/deploy/cloudman.py)\<close>

text \<open>
  \<open>len(x)\<close>, \<open>x[0]\<close>, \<open>x[key]\<close> for a string \<open>key\<close>, and \<open>x.get(key, None)\<close> on the values
  that \<open>yaml.load\<close> returns. The keys of a dictionary are strings here, so that \<open>0\<close> is
  never one of them.
\<close>

fun py_len :: "pyval \<Rightarrow> exn + nat" where
  "py_len (PList xs) = Inr (length xs)"
| "py_len (PDict kvs) = Inr (length kvs)"
| "py_len (PStr s) = Inr (length s)"
| "py_len (PUnicode s) = Inr (length s)"
| "py_len v = Inl (TypeError ''object has no len()'')"

fun py_first :: "pyval \<Rightarrow> exn + pyval" where
  "py_first (PList []) = Inl (IndexError ''list index out of range'')"
| "py_first (PList (x # xs)) = Inr x"
| "py_first (PStr []) = Inl (IndexError ''string index out of range'')"
| "py_first (PStr (c # cs)) = Inr (PStr [c])"
| "py_first (PUnicode []) = Inl (IndexError ''string index out of range'')"
| "py_first (PUnicode (c # cs)) = Inr (PUnicode [c])"
| "py_first (PDict kvs) = Inl (KeyError ''0'')"
| "py_first v = Inl (TypeError ''object has no attribute __getitem__'')"

fun py_item :: "pyval \<Rightarrow> string \<Rightarrow> exn + pyval" where
  "py_item (PDict kvs) key =
     (case map_of kvs key of None \<Rightarrow> Inl (KeyError key) | Some v \<Rightarrow> Inr v)"
| "py_item (PList xs) key = Inl (TypeError ''list indices must be integers, not str'')"
| "py_item (PStr s) key = Inl (TypeError ''string indices must be integers, not str'')"
| "py_item (PUnicode s) key = Inl (TypeError ''string indices must be integers, not str'')"
| "py_item v key = Inl (TypeError ''object has no attribute __getitem__'')"

fun py_get :: "pyval \<Rightarrow> string \<Rightarrow> exn + pyval" where
  "py_get (PDict kvs) key = Inr (case map_of kvs key of None \<Rightarrow> PNone | Some v \<Rightarrow> v)"
| "py_get v key = Inl (AttributeError ''object has no attribute get'')"

text \<open>
  \<open>str(image_id).lower() == "__use_snaps__"\<close>. Only a string can pass the test: \<open>str\<close>
  of \<open>None\<close>, of a truth value, of a number, of a list and of a dictionary is \<open>None\<close>,
  \<open>True\<close> or \<open>False\<close>, a numeral, and a text in brackets or braces. (A \<open>unicode\<close> value
  is taken to hold ASCII characters only, as identifiers of images do.)
\<close>

fun use_snaps :: "pyval \<Rightarrow> bool" where
  "use_snaps (PStr s) = (lower s = ''__use_snaps__'')"
| "use_snaps (PUnicode s) = (lower s = ''__use_snaps__'')"
| "use_snaps v = False"

text \<open>
  \<open>os.path.join(a, "snaps.yaml")\<close>: the second part is relative, so it is appended,
  after a slash unless \<open>a\<close> is empty or ends with one. On a value that is not a string
  the call of \<open>a.endswith\<close> raises \<open>AttributeError\<close>.
\<close>

definition join_path :: "string \<Rightarrow> string \<Rightarrow> string" where
  "join_path a b = (if a = [] \<or> last a = CHR ''/'' then a @ b else a @ ''/'' @ b)"

fun path_join :: "pyval \<Rightarrow> string \<Rightarrow> exn + string" where
  "path_join (PStr a) b = Inr (join_path a b)"
| "path_join (PUnicode a) b = Inr (join_path a b)"
| "path_join v b = Inl (AttributeError ''object has no attribute endswith'')"

text \<open>
  The files and the other functions that \<open>cloudman_launch\<close> uses: \<open>os.path.exists\<close>,
  \<open>open\<close> with \<open>yaml.load\<close>, and the document that \<open>_prepare_user_data\<close> returns. The
  last step of the function is the call of \<open>vm_launcher.create_node\<close>; the model returns
  the arguments of that call.
\<close>

record files =
  path_exists :: "string \<Rightarrow> bool"
  yaml_load :: "string \<Rightarrow> exn + pyval"
  prepare_user_data :: "exn + string"

record node_request =
  node_name :: string
  image_id :: pyval
  size_id :: pyval
  ex_userdata :: string

definition msg_no_snaps :: "string \<Rightarrow> string" where
  "msg_no_snaps snaps_path =
     ''CloudMan AMI set to __use_snaps__ but now snaps.yaml file could be found with path '' @
     snaps_path"

definition msg_one_cloud :: string where
  "msg_one_cloud =
     ''Exactly one cloud must be defined snaps.yaml for the deployer's CloudMan launch to work.''"

definition msg_one_region :: string where
  "msg_one_region =
     ''Exactly one region must be defined snaps.yaml for the deployer's CloudMan launch to work.''"

definition msg_one_deployment :: string where
  "msg_one_deployment =
     ''Exactly one deployment must be defined snaps.yaml for the deployer's CloudMan launch to work.''"

text \<open>The block under \<open>if str(image_id).lower() == "__use_snaps__":\<close>, up to the new \<open>image_id\<close>.\<close>

definition image_from_snaps :: "files \<Rightarrow> pyval \<Rightarrow> exn + pyval" where
  "image_from_snaps fs cloudman_options =
     and_then (py_get cloudman_options ''bucket_source'') (\<lambda>bucket_source.
     and_then (path_join bucket_source ''snaps.yaml'') (\<lambda>snaps_path.
     if \<not> path_exists fs snaps_path then Inl (Exception (msg_no_snaps snaps_path))
     else
     and_then (yaml_load fs snaps_path) (\<lambda>snaps.
     and_then (py_item snaps ''clouds'') (\<lambda>clouds.
     and_then (py_len clouds) (\<lambda>n_clouds.
     if n_clouds \<noteq> 1 then Inl (Exception msg_one_cloud)
     else
     and_then (py_first clouds) (\<lambda>cloud.
     and_then (py_item cloud ''regions'') (\<lambda>regions.
     and_then (py_len regions) (\<lambda>n_regions.
     if n_regions \<noteq> 1 then Inl (Exception msg_one_region)
     else
     and_then (py_first regions) (\<lambda>region.
     and_then (py_item region ''deployments'') (\<lambda>deployments.
     and_then (py_len deployments) (\<lambda>n_deployments.
     if n_deployments \<noteq> 1 then Inl (Exception msg_one_deployment)
     else
     and_then (py_first deployments) (\<lambda>deployment.
     py_item deployment ''default_mi''))))))))))))"

definition cloudman_launch :: "files \<Rightarrow> pyval \<Rightarrow> exn + node_request" where
  "cloudman_launch fs options =
     and_then (py_get options ''cloudman'') (\<lambda>cloudman_options.
     and_then (py_get cloudman_options ''image_id'') (\<lambda>image_id.
     and_then (if use_snaps image_id then image_from_snaps fs cloudman_options
               else Inr image_id) (\<lambda>image_id.
     and_then (py_get cloudman_options ''size_id'') (\<lambda>size_id.
     and_then (prepare_user_data fs) (\<lambda>user_data.
     Inr \<lparr> node_name = ''cloudman'', image_id = image_id, size_id = size_id,
           ex_userdata = user_data \<rparr>)))))"

section \<open>What the properties are stated with\<close>

text \<open>
  The names that \<open>install_custom\<close> is to resolve for a package \<open>p\<close> under the dictionary
  \<open>g\<close>: the module is named after the group of the lower-case name, or after that name
  itself when it has no group, hyphens kept; the entry function is \<open>install_\<close> with the
  lower-case name whose hyphens have become underscores.
\<close>

definition module_of :: "(string \<rightharpoonup> string) \<Rightarrow> string \<Rightarrow> string" where
  "module_of g p =
     ''cloudbio.custom.'' @ (case g (lower p) of Some grp \<Rightarrow> grp | None \<Rightarrow> lower p)"

definition symbol_name :: "string \<Rightarrow> string" where
  "symbol_name p = map (\<lambda>c. if c = CHR ''-'' then CHR ''_'' else c) (lower p)"

definition entry_name :: "string \<Rightarrow> string" where
  "entry_name p = ''install_'' @ symbol_name p"

text \<open>
  The events of a call of \<open>install_custom\<close> for \<open>p\<close> that runs to its end: the first
  two; when the call is not automated, the loading of the environment and of the
  dictionary from the file \<open>pkg_config\<close>; and the resolution under the dictionary \<open>g\<close>
  with the call of the entry function.
\<close>

definition start_events :: "string \<Rightarrow> event list" where
  "start_events p =
     [SetupLogging, TimeStats (''Custom install for '' @ quoted (lower p)) ''start'']"

definition load_events :: "string option \<Rightarrow> string \<Rightarrow> event list" where
  "load_events flavor pkg_config =
     [ConfigureFabricEnvironment flavor, GetConfigFile ''custom.yaml'',
      YamlToPackages pkg_config None]"

definition resolve_events :: "(string \<rightharpoonup> string) \<Rightarrow> string \<Rightarrow> event list" where
  "resolve_events g p =
     [LogDebug (''Import '' @ lower p),
      Import (module_of g p),
      CallEntry (module_of g p) (entry_name p),
      TimeStats (''Custom install for '' @ quoted (symbol_name p)) ''end'']"

definition dispatch_events :: "(string \<rightharpoonup> string) \<Rightarrow> string \<Rightarrow> event list" where
  "dispatch_events g p = start_events p @ resolve_events g p"

text \<open>The calls of the flavor's hook among the events of a run.\<close>

fun is_Rewrite :: "event \<Rightarrow> bool" where
  "is_Rewrite (Rewrite name items) = True"
| "is_Rewrite e = False"

definition hook_calls :: "event list \<Rightarrow> event list" where
  "hook_calls tr = filter is_Rewrite tr"

text \<open>
  For the three installers that call the hook: the name they call it with, the key of
  the list in their configuration file, and their events before the call (\<open>d\<close> is the
  temporary directory).
\<close>

definition hook_use :: "string \<rightharpoonup> string \<times> string" where
  "hook_use = map_of
     [(''python-libs'', (''python'', ''pypi'')),
      (''ruby-libs'', (''ruby'', ''gems'')),
      (''perl-libs'', (''perl'', ''cpan''))]"

definition prologue :: "string \<Rightarrow> fab_env \<Rightarrow> string \<Rightarrow> event list" where
  "prologue name env d =
     (if name = ''python-libs'' then
        [SafeSudo (''easy_install'' @
           (if python_version_ext env \<noteq> [] then ''-'' @ python_version_ext env else []) @
           '' -U pip'')]
      else if name = ''ruby-libs'' then [Run (gem_list_cmd env)]
      else if name = ''perl-libs'' then
        [MakeTmpDir,
         InDir d (Run (''wget --no-check-certificate -O cpanm '' @
                       ''https://raw.github.com/miyagawa/cpanminus/master/cpanm'')),
         InDir d (Run ''chmod a+rwx cpanm''),
         InDir d (SafeSudo (''mv cpanm '' @ system_install env @ ''/bin'')),
         LeaveTmpDir d]
      else [])"

text \<open>
  What the Ruby installer is to do for the gems of its list, as a test of the events
  \<open>tr\<close> that follow the history \<open>h\<close>, \<open>installed\<close> being the current list of installed
  gems. For a gem of that list: the one command \<open>gem update\<close>. For a gem outside it: the
  query of the installed gems, whose answer is the current list from then on, and then
  \<open>gem update\<close> when the gem is in the answer and \<open>gem install\<close> when not.
\<close>

fun gem_steps ::
  "world \<Rightarrow> fab_env \<Rightarrow> string list \<Rightarrow> string list \<Rightarrow> event list \<Rightarrow> event list \<Rightarrow> bool" where
  "gem_steps w env [] installed h tr = (tr = [])"
| "gem_steps w env (gem # gems) installed h tr =
     (if gem \<in> set installed then
        (case tr of
           e # tr' \<Rightarrow> e = SafeSudo (gem_update_cmd env gem) \<and>
                      gem_steps w env gems installed (h @ [e]) tr'
         | [] \<Rightarrow> False)
      else
        (case tr of
           q # e # tr' \<Rightarrow>
             q = Run (gem_list_cmd env) \<and>
             (case w_str w h q of
                Inr gem_info \<Rightarrow>
                  e = SafeSudo (if gem \<in> set (gem_lines gem_info)
                                then gem_update_cmd env gem else gem_install_cmd env gem) \<and>
                  gem_steps w env gems (gem_lines gem_info) (h @ [q, e]) tr'
              | Inl err \<Rightarrow> False)
         | tr' \<Rightarrow> False))"

text \<open>
  A world and an environment for examples: every command succeeds and prints nothing,
  every path exists, the hook returns its list as it is (as the base flavor does), the
  package configuration is empty, and there is no module to import.
\<close>

definition quiet_world :: world where
  "quiet_world =
     \<lparr> w_unit = (\<lambda>h ev. Inr ()),
       w_bool = (\<lambda>h ev. Inr True),
       w_str = (\<lambda>h ev. Inr []),
       w_list = (\<lambda>h ev. case ev of Rewrite name items \<Rightarrow> Inr items | e \<Rightarrow> Inr []),
       w_pkgs = (\<lambda>h ev. Inr ([], Map.empty)),
       w_module = (\<lambda>h ev. Inl (ImportError ''No module of that name'')),
       w_config = (\<lambda>h ev. Inr \<lparr> strs = Map.empty, lists = Map.empty \<rparr>) \<rparr>"

definition example_env :: fab_env where
  "example_env =
     \<lparr> local_install = ''/usr/local'', system_install = ''/usr'', python_version_ext = [],
       ruby_version_ext = None, pip_cmd = ''pip'', use_sudo = True, nixpkgs = False,
       is_ec2_image = None, distribution = ''ubuntu'' \<rparr>"

text \<open>An action, none of whose runs calls the flavor's hook.\<close>

definition hookless :: "(event list, 'a) act \<Rightarrow> bool" where
  "hookless m = (\<forall>h r h'. m h = (r, h') \<longrightarrow> (\<exists>tr. h' = h @ tr \<and> hook_calls tr = []))"

section \<open>Properties\<close>

subsection \<open>The main configuration\<close>

text \<open>
  C9, as the code has it. A manifest without the key \<open>packages\<close>, or with it and without
  the key \<open>libraries\<close>, makes \<open>_read_main_config\<close> raise \<open>KeyError\<close> for that key. With
  both keys present it returns; a null under \<open>packages\<close> or \<open>libraries\<close> gives the empty
  list for that component, an absent \<open>custom_ignore\<close> gives the empty list, and a null
  \<open>custom_ignore\<close> is returned as \<open>None\<close>.
\<close>

theorem read_main_config_defaults:
  "(full_data ''packages'' = None \<longrightarrow>
      read_main_config full_data = Inl (KeyError ''packages''))
 \<and> (full_data ''packages'' \<noteq> None \<and> full_data ''libraries'' = None \<longrightarrow>
      read_main_config full_data = Inl (KeyError ''libraries''))
 \<and> (\<forall>pv lv. full_data ''packages'' = Some pv \<and> full_data ''libraries'' = Some lv \<longrightarrow>
      (\<exists>packages libraries custom_ignore.
          read_main_config full_data = Inr (packages, libraries, custom_ignore)
        \<and> (pv = None \<longrightarrow> packages = [])
        \<and> (lv = None \<longrightarrow> libraries = [])
        \<and> (full_data ''custom_ignore'' = None \<longrightarrow> custom_ignore = Some [])
        \<and> (full_data ''custom_ignore'' = Some None \<longrightarrow> custom_ignore = None)))"
  by (auto simp: read_main_config_def or_empty_def Let_def split: option.splits)

text \<open>The theorem at a manifest whose \<open>packages\<close> and \<open>libraries\<close> are null.\<close>

theorem read_main_config_defaults_witness:
  "read_main_config [''packages'' \<mapsto> None, ''libraries'' \<mapsto> None] = Inr ([], [], Some [])"
  using read_main_config_defaults [of "[''packages'' \<mapsto> None, ''libraries'' \<mapsto> None]"]
  by auto

text \<open>
  C9 as the claim states it fails: a manifest without \<open>packages\<close> raises, and a null
  \<open>custom_ignore\<close> comes back as \<open>None\<close>, not as the empty list.
\<close>

theorem read_main_config_missing_key:
  "read_main_config [''libraries'' \<mapsto> Some [''python-libs'']] = Inl (KeyError ''packages'')
 \<and> read_main_config [''packages'' \<mapsto> Some [''minimal''], ''libraries'' \<mapsto> Some [''python-libs''],
        ''custom_ignore'' \<mapsto> None] = Inr ([''minimal''], [''python-libs''], None)"
  by (simp add: read_main_config_def or_empty_def)

subsection \<open>Chef node properties\<close>

lemma chef_step_alt:
  "chef_property_step js kv =
     (if js (fst kv) \<noteq> None \<or> \<not> isinstance_str (snd kv) then js
      else js(chef_key (fst kv) \<mapsto> snd kv))"
  unfolding chef_property_step_def chef_key_def Let_def by simp

lemma chef_step_frame:
  "(isinstance_str (snd kv) \<Longrightarrow> chef_key (fst kv) \<noteq> t) \<Longrightarrow> chef_property_step js kv t = js t"
  by (auto simp: chef_step_alt)

lemma build_chef_frame:
  "(\<And>k v. (k, v) \<in> set env \<Longrightarrow> isinstance_str v \<Longrightarrow> chef_key k \<noteq> t)
     \<Longrightarrow> build_chef_properties env js t = js t"
  unfolding build_chef_properties_def
proof (induction env arbitrary: js)
  case Nil
  then show ?case by simp
next
  case (Cons kv env)
  have "foldl chef_property_step (chef_property_step js kv) env t = chef_property_step js kv t"
    using Cons.prems by (intro Cons.IH) auto
  also have "\<dots> = js t"
    using Cons.prems[of "fst kv" "snd kv"] by (intro chef_step_frame) auto
  finally show ?case by simp
qed

lemma build_chef_filter:
  "build_chef_properties (filter (\<lambda>kv. isinstance_str (snd kv)) env) js =
   build_chef_properties env js"
  unfolding build_chef_properties_def
  by (induction env arbitrary: js) (auto simp: chef_step_alt)

lemma chef_step_store:
  "js key = None \<Longrightarrow> chef_property_step js (key, PStr s) (chef_key key) = Some (PStr s)"
  by (simp add: chef_step_alt)

lemma build_chef_store:
  assumes dist: "distinct (map fst env)"
    and mem: "(key, PStr s) \<in> set env"
    and fresh: "js key = None"
    and others: "\<And>k v. (k, v) \<in> set env \<Longrightarrow> isinstance_str v \<Longrightarrow> k \<noteq> key \<Longrightarrow>
                   chef_key k \<noteq> key \<and> chef_key k \<noteq> chef_key key"
  shows "build_chef_properties env js (chef_key key) = Some (PStr s)"
proof -
  from mem obtain pre post where env: "env = pre @ (key, PStr s) # post"
    by (auto simp: in_set_conv_decomp)
  have pre_ne: "\<And>k v. (k, v) \<in> set pre \<Longrightarrow> k \<noteq> key"
    using dist unfolding env by (auto simp: rev_image_eqI)
  have post_ne: "\<And>k v. (k, v) \<in> set post \<Longrightarrow> k \<noteq> key"
    using dist unfolding env by (auto simp: rev_image_eqI)
  let ?js1 = "build_chef_properties pre js"
  have "?js1 key = js key"
    by (rule build_chef_frame) (use others pre_ne env in auto)
  then have js1: "?js1 key = None" using fresh by simp
  let ?js2 = "chef_property_step ?js1 (key, PStr s)"
  have js2: "?js2 (chef_key key) = Some (PStr s)"
    using js1 by (rule chef_step_store)
  have "build_chef_properties post ?js2 (chef_key key) = ?js2 (chef_key key)"
    by (rule build_chef_frame) (use others post_ne env in auto)
  moreover have "build_chef_properties env js = build_chef_properties post ?js2"
    unfolding env by (simp add: build_chef_properties_def)
  ultimately show ?thesis using js2 by simp
qed

text \<open>
  C10, as the code has it. The environment is a dictionary, so its keys are distinct.
  The key under which an entry with a \<open>str\<close> value is stored is \<open>chef_key\<close> of its key:
  the key without \<open>chef_\<close>, or \<open>cloudbiolinux_\<close> and the key.
  \<^item> A key \<open>k\<close> that is the \<open>chef_key\<close> of no entry with a \<open>str\<close> value has in the result
    what the parsed file has under it: its original value, or nothing.
  \<^item> Entries whose value is not a \<open>str\<close> change nothing: the result is that of the
    environment without them.
  \<^item> An entry \<open>(key, s)\<close> with a \<open>str\<close> value, whose key is not a key of the parsed file,
    and such that no other entry with a \<open>str\<close> value is stored under \<open>key\<close> or under
    \<open>chef_key key\<close>, is in the result under \<open>chef_key key\<close>.
\<close>

theorem build_chef_properties_design:
  assumes "distinct (map fst env)"
  shows "(\<forall>k. (\<forall>(k', v') \<in> set env. isinstance_str v' \<longrightarrow> chef_key k' \<noteq> k) \<longrightarrow>
            build_chef_properties env js k = js k)
       \<and> build_chef_properties env js =
           build_chef_properties (filter (\<lambda>kv. isinstance_str (snd kv)) env) js
       \<and> (\<forall>key s. (key, PStr s) \<in> set env \<and> js key = None \<and>
             (\<forall>(k', v') \<in> set env. isinstance_str v' \<and> k' \<noteq> key \<longrightarrow>
                 chef_key k' \<noteq> key \<and> chef_key k' \<noteq> chef_key key) \<longrightarrow>
             build_chef_properties env js (chef_key key) = Some (PStr s))"
proof (intro conjI allI impI)
  fix k
  assume "\<forall>(k', v') \<in> set env. isinstance_str v' \<longrightarrow> chef_key k' \<noteq> k"
  then show "build_chef_properties env js k = js k"
    by (intro build_chef_frame) auto
next
  show "build_chef_properties env js =
           build_chef_properties (filter (\<lambda>kv. isinstance_str (snd kv)) env) js"
    by (simp add: build_chef_filter)
next
  fix key s
  assume a: "(key, PStr s) \<in> set env \<and> js key = None \<and>
             (\<forall>(k', v') \<in> set env. isinstance_str v' \<and> k' \<noteq> key \<longrightarrow>
                 chef_key k' \<noteq> key \<and> chef_key k' \<noteq> chef_key key)"
  show "build_chef_properties env js (chef_key key) = Some (PStr s)"
    by (rule build_chef_store[OF assms]) (use a in auto)
qed

text \<open>
  The theorem at an environment with a \<open>chef_\<close> entry, a plain entry and an entry that
  is not a \<open>str\<close>, over a file with the one key \<open>run_list\<close>.
\<close>

theorem build_chef_properties_design_witness:
  "distinct (map fst [(''chef_apache_dir'', PStr ''/srv''), (''user'', PStr ''ubuntu''),
                      (''port'', PInt 22)])
 \<and> build_chef_properties
      [(''chef_apache_dir'', PStr ''/srv''), (''user'', PStr ''ubuntu''), (''port'', PInt 22)]
      [''run_list'' \<mapsto> PList []] ''run_list'' = Some (PList [])
 \<and> build_chef_properties
      [(''chef_apache_dir'', PStr ''/srv''), (''user'', PStr ''ubuntu''), (''port'', PInt 22)]
      [''run_list'' \<mapsto> PList []] ''apache_dir'' = Some (PStr ''/srv'')
 \<and> build_chef_properties
      [(''chef_apache_dir'', PStr ''/srv''), (''user'', PStr ''ubuntu''), (''port'', PInt 22)]
      [''run_list'' \<mapsto> PList []] ''cloudbiolinux_user'' = Some (PStr ''ubuntu'')"
proof -
  let ?env = "[(''chef_apache_dir'', PStr ''/srv''), (''user'', PStr ''ubuntu''),
               (''port'', PInt 22)]"
  let ?js = "[''run_list'' \<mapsto> PList []]"
  have d: "distinct (map fst ?env)" by simp
  note t = build_chef_properties_design [OF d, of ?js]
  have "build_chef_properties ?env ?js ''run_list'' = ?js ''run_list''"
    by (rule t [THEN conjunct1, rule_format]) (auto simp: chef_key_def startswith_def)
  then have frame: "build_chef_properties ?env ?js ''run_list'' = Some (PList [])"
    by simp
  have "build_chef_properties ?env ?js (chef_key ''chef_apache_dir'') = Some (PStr ''/srv'')"
    by (rule t [THEN conjunct2, THEN conjunct2, rule_format])
       (auto simp: chef_key_def startswith_def)
  then have chef: "build_chef_properties ?env ?js ''apache_dir'' = Some (PStr ''/srv'')"
    by (simp add: chef_key_def startswith_def)
  have "build_chef_properties ?env ?js (chef_key ''user'') = Some (PStr ''ubuntu'')"
    by (rule t [THEN conjunct2, THEN conjunct2, rule_format])
       (auto simp: chef_key_def startswith_def)
  then have plain: "build_chef_properties ?env ?js ''cloudbiolinux_user'' = Some (PStr ''ubuntu'')"
    by (simp add: chef_key_def startswith_def)
  show ?thesis
    using d frame chef plain by simp
qed

text \<open>
  C10 as the claim states it fails: an environment entry \<open>chef_apache_dir\<close> replaces the
  value that the parsed file has under \<open>apache_dir\<close>.
\<close>

theorem build_chef_properties_overrides_file_entry:
  "build_chef_properties [(''chef_apache_dir'', PStr ''/b'')]
      [''apache_dir'' \<mapsto> PUnicode ''/a''] ''apache_dir'' = Some (PStr ''/b'')"
  by (simp add: build_chef_properties_def chef_property_step_def startswith_def)

subsection \<open>JSON with comments\<close>

lemma no_slash_no_match:
  assumes "CHR ''/'' \<notin> set s"
  shows "comment_match s = None"
proof -
  have sub: "set (dropWhile hws s) \<subseteq> set s"
    by (simp add: set_dropWhileD subsetI)
  have "take 2 (dropWhile hws s) \<noteq> [CHR ''/'', c]" for c
  proof
    assume "take 2 (dropWhile hws s) = [CHR ''/'', c]"
    then have "CHR ''/'' \<in> set (take 2 (dropWhile hws s))" by simp
    then have "CHR ''/'' \<in> set (dropWhile hws s)" by (rule in_set_takeD)
    with sub assms show False by auto
  qed
  then show ?thesis by (simp add: comment_match_def Let_def)
qed

lemma no_slash_no_search:
  "CHR ''/'' \<notin> set s \<Longrightarrow> comment_search s = None"
  by (induction s) (simp_all add: no_slash_no_match)

lemma no_slash_strip:
  "CHR ''/'' \<notin> set s \<Longrightarrow> strip_comments s = s"
  by (subst strip_comments.simps) (simp add: no_slash_no_search)

lemma find_close_append:
  "find_close body = None \<Longrightarrow> find_close (body @ ''*/'' @ post) = Some (length body)"
  by (induction body rule: find_close.induct) (auto split: if_splits)

lemma blanks_then_slash:
  assumes "\<forall>c \<in> set ws. hws c"
  shows "takeWhile hws (ws @ CHR ''/'' # t) = ws" and "dropWhile hws (ws @ CHR ''/'' # t) = CHR ''/'' # t"
  using assms by (simp_all add: takeWhile_append2 dropWhile_append2 hws_def)

lemma block_match:
  assumes ws: "\<forall>c \<in> set ws. hws c" and body: "find_close body = None"
  shows "comment_match (ws @ ''/*'' @ body @ ''*/'' @ post) =
         Some (length ws + 2 + length body + 2 + length (takeWhile hws post))"
proof -
  have fc: "find_close (body @ CHR ''*'' # CHR ''/'' # post) = Some (length body)"
    using find_close_append[OF body, of post] by simp
  show ?thesis
    unfolding comment_match_def Let_def
    using blanks_then_slash[OF ws, of "CHR ''*'' # body @ ''*/'' @ post"] fc
    by simp
qed

lemma line_match:
  assumes ws: "\<forall>c \<in> set ws. hws c" and body: "CHR 0x0A \<notin> set body"
  shows "comment_match (ws @ ''//'' @ body @ CHR 0x0A # post) = Some (length ws + 2 + length body)"
proof -
  have tw: "takeWhile (\<lambda>c. c \<noteq> CHR 0x0A) (body @ CHR 0x0A # post) = body"
    using body by (induction body) auto
  show ?thesis
    unfolding comment_match_def Let_def
    using blanks_then_slash[OF ws, of "CHR ''/'' # body @ CHR 0x0A # post"] tw
    by simp
qed

lemma search_skips_text:
  assumes "CHR ''/'' \<notin> set p" and "p = [] \<or> \<not> hws (last p)"
    and "comment_match t = Some n"
  shows "comment_search (p @ t) = Some (length p, length p + n)"
  using assms
proof (induction p)
  case Nil
  then show ?case by (cases t) simp_all
next
  case (Cons c p)
  have last: "\<not> hws (last (c # p))" using Cons.prems(2) by simp
  have "dropWhile hws (c # p) \<noteq> []"
    using last by (metis dropWhile_eq_Nil_conv last_in_set list.distinct(1))
  then obtain x xs where dw: "dropWhile hws (c # p) = x # xs"
    by (cases "dropWhile hws (c # p)") auto
  have "x \<in> set (c # p)" using dw by (metis list.set_intros(1) set_dropWhileD)
  then have x: "x \<noteq> CHR ''/''" using Cons.prems(1) by auto
  obtain y where y: "y \<in> set (c # p)" "\<not> hws y"
    using last last_in_set[of "c # p"] by blast
  have "dropWhile hws ((c # p) @ t) = dropWhile hws (c # p) @ t"
    using y by (rule dropWhile_append1)
  then have "dropWhile hws (c # p @ t) = x # xs @ t"
    using dw by simp
  then have nomatch: "comment_match (c # p @ t) = None"
    using x by (simp add: comment_match_def Let_def)
  have "comment_search (p @ t) = Some (length p, length p + n)"
  proof (rule Cons.IH)
    show "CHR ''/'' \<notin> set p" using Cons.prems(1) by simp
    show "p = [] \<or> \<not> hws (last p)" using Cons.prems(2) by (cases p) auto
    show "comment_match t = Some n" by fact
  qed
  then show ?case using nomatch by simp
qed

lemma rstrip_hws_split:
  "s = rstrip_hws s @ rev (takeWhile hws (rev s))"
  "rstrip_hws s = [] \<or> \<not> hws (last (rstrip_hws s))"
  "\<forall>c \<in> set (rev (takeWhile hws (rev s))). hws c"
proof -
  have "rev (dropWhile hws (rev s)) @ rev (takeWhile hws (rev s)) =
        rev (takeWhile hws (rev s) @ dropWhile hws (rev s))"
    by (simp only: rev_append)
  also have "\<dots> = rev (rev s)" by (simp only: takeWhile_dropWhile_id)
  finally show "s = rstrip_hws s @ rev (takeWhile hws (rev s))"
    by (simp add: rstrip_hws_def)
  show "rstrip_hws s = [] \<or> \<not> hws (last (rstrip_hws s))"
    unfolding rstrip_hws_def
    by (metis hd_dropWhile last_rev rev_is_Nil_conv)
  show "\<forall>c \<in> set (rev (takeWhile hws (rev s))). hws c"
    by (auto dest: set_takeWhileD)
qed

lemma rstrip_hws_set: "set (rstrip_hws s) \<subseteq> set s"
  unfolding rstrip_hws_def by (auto dest: set_dropWhileD)

lemma strip_block_comment:
  assumes pre: "CHR ''/'' \<notin> set pre" and post: "CHR ''/'' \<notin> set post"
    and body: "find_close body = None"
  shows "strip_comments (pre @ ''/*'' @ body @ ''*/'' @ post) = rstrip_hws pre @ dropWhile hws post"
proof -
  define p where "p = rstrip_hws pre"
  define ws where "ws = rev (takeWhile hws (rev pre))"
  define n where "n = length ws + 2 + length body + 2 + length (takeWhile hws post)"
  define t where "t = ws @ ''/*'' @ body @ ''*/'' @ post"
  have split: "pre = p @ ws" and lastp: "p = [] \<or> \<not> hws (last p)"
    and blanks: "\<forall>c \<in> set ws. hws c"
    unfolding p_def ws_def using rstrip_hws_split[of pre] by auto
  have pslash: "CHR ''/'' \<notin> set p"
    using pre rstrip_hws_set[of pre] unfolding p_def by auto
  have m: "comment_match t = Some n"
    unfolding t_def n_def by (rule block_match[OF blanks body])
  have s: "comment_search (p @ t) = Some (length p, length p + n)"
    by (rule search_skips_text[OF pslash lastp m])
  have content: "pre @ ''/*'' @ body @ ''*/'' @ post = p @ t"
    unfolding t_def split by simp
  define a where "a = ws @ ''/*'' @ body @ ''*/'' @ takeWhile hws post"
  have "t = a @ dropWhile hws post" "length a = n"
    unfolding t_def a_def n_def by simp_all
  then have "drop n t = dropWhile hws post" by simp
  then have cut: "take (length p) (p @ t) @ drop (length p + n) (p @ t) = p @ dropWhile hws post"
    by simp
  have clean: "CHR ''/'' \<notin> set (p @ dropWhile hws post)"
    using pslash post by (auto dest: set_dropWhileD)
  have "strip_comments (p @ t) = strip_comments (p @ dropWhile hws post)"
    by (subst strip_comments.simps) (simp only: s option.case prod.case cut)
  also have "\<dots> = p @ dropWhile hws post"
    by (rule no_slash_strip[OF clean])
  finally show ?thesis unfolding content p_def .
qed

lemma strip_line_comment:
  assumes pre: "CHR ''/'' \<notin> set pre" and post: "CHR ''/'' \<notin> set post"
    and body: "CHR 0x0A \<notin> set body"
  shows "strip_comments (pre @ ''//'' @ body @ CHR 0x0A # post) = rstrip_hws pre @ CHR 0x0A # post"
proof -
  define p where "p = rstrip_hws pre"
  define ws where "ws = rev (takeWhile hws (rev pre))"
  define n where "n = length ws + 2 + length body"
  define t where "t = ws @ ''//'' @ body @ CHR 0x0A # post"
  have split: "pre = p @ ws" and lastp: "p = [] \<or> \<not> hws (last p)"
    and blanks: "\<forall>c \<in> set ws. hws c"
    unfolding p_def ws_def using rstrip_hws_split[of pre] by auto
  have pslash: "CHR ''/'' \<notin> set p"
    using pre rstrip_hws_set[of pre] unfolding p_def by auto
  have m: "comment_match t = Some n"
    unfolding t_def n_def by (rule line_match[OF blanks body])
  have s: "comment_search (p @ t) = Some (length p, length p + n)"
    by (rule search_skips_text[OF pslash lastp m])
  have content: "pre @ ''//'' @ body @ CHR 0x0A # post = p @ t"
    unfolding t_def split by simp
  define a where "a = ws @ ''//'' @ body"
  have "t = a @ CHR 0x0A # post" "length a = n"
    unfolding t_def a_def n_def by simp_all
  then have "drop n t = CHR 0x0A # post" by simp
  then have cut: "take (length p) (p @ t) @ drop (length p + n) (p @ t) = p @ CHR 0x0A # post"
    by simp
  have clean: "CHR ''/'' \<notin> set (p @ CHR 0x0A # post)"
    using pslash post by auto
  have "strip_comments (p @ t) = strip_comments (p @ CHR 0x0A # post)"
    by (subst strip_comments.simps) (simp only: s option.case prod.case cut)
  also have "\<dots> = p @ CHR 0x0A # post"
    by (rule no_slash_strip[OF clean])
  finally show ?thesis unfolding content p_def .
qed

lemma strip_example:
  "strip_comments ''{\"a\": 1 /* x */, \"b\": 2 // y\<newline>}'' = ''{\"a\": 1, \"b\": 2\<newline>}''"
  by code_simp

lemma strip_url_example:
  "strip_comments ''{\"url\": \"http://example.org/x\"}'' = ''{\"url\": \"http:''"
  by code_simp

text \<open>
  C5. \<open>_parse_json\<close> gives the text without its comments to the JSON parser.
  \<^item> On the file \<open>{"a": 1 /* x */, "b": 2 // y\<close>, a newline, \<open>}\<close> the parser receives
    \<open>{"a": 1, "b": 2\<close>, a newline, \<open>}\<close>: the JSON text of the mapping of \<open>a\<close> to 1 and \<open>b\<close>
    to 2.
  \<^item> A block comment \<open>/* body */\<close> is removed whole, with the blanks before and after
    it, whatever \<open>body\<close> is, newlines included, as long as \<open>*/\<close> does not occur in it
    (the text around it having no other comment).
  \<^item> A line comment \<open>// body\<close> is removed up to the end of its line, with the blanks
    before it.
  \<^item> The markers are not treated differently inside a string literal: what follows the
    \<open>//\<close> of an address is removed.
\<close>

theorem parse_json_strips_comments:
  "(read_file f = Inr ''{\"a\": 1 /* x */, \"b\": 2 // y\<newline>}'' \<longrightarrow>
      parse_json read_file json_loads f = json_loads ''{\"a\": 1, \"b\": 2\<newline>}'')
 \<and> (\<forall>pre body post.
        CHR ''/'' \<notin> set pre \<and> CHR ''/'' \<notin> set post \<and> find_close body = None \<longrightarrow>
        strip_comments (pre @ ''/*'' @ body @ ''*/'' @ post) = rstrip_hws pre @ dropWhile hws post)
 \<and> (\<forall>pre body post.
        CHR ''/'' \<notin> set pre \<and> CHR ''/'' \<notin> set post \<and> CHR 0x0A \<notin> set body \<longrightarrow>
        strip_comments (pre @ ''//'' @ body @ CHR 0x0A # post) = rstrip_hws pre @ CHR 0x0A # post)
 \<and> (read_file f = Inr ''{\"url\": \"http://example.org/x\"}'' \<longrightarrow>
      parse_json read_file json_loads f = json_loads ''{\"url\": \"http:'')"
proof (intro conjI allI impI)
  assume "read_file f = Inr ''{\"a\": 1 /* x */, \"b\": 2 // y\<newline>}''"
  then show "parse_json read_file json_loads f = json_loads ''{\"a\": 1, \"b\": 2\<newline>}''"
    by (simp only: parse_json_def and_then_def sum.case strip_example)
next
  fix pre body post
  assume "CHR ''/'' \<notin> set pre \<and> CHR ''/'' \<notin> set post \<and> find_close body = None"
  then show "strip_comments (pre @ ''/*'' @ body @ ''*/'' @ post) =
             rstrip_hws pre @ dropWhile hws post"
    by (intro strip_block_comment) auto
next
  fix pre body post
  assume "CHR ''/'' \<notin> set pre \<and> CHR ''/'' \<notin> set post \<and> CHR 0x0A \<notin> set body"
  then show "strip_comments (pre @ ''//'' @ body @ CHR 0x0A # post) =
             rstrip_hws pre @ CHR 0x0A # post"
    by (intro strip_line_comment) auto
next
  assume "read_file f = Inr ''{\"url\": \"http://example.org/x\"}''"
  then show "parse_json read_file json_loads f = json_loads ''{\"url\": \"http:''"
    by (simp only: parse_json_def and_then_def sum.case strip_url_example)
qed

text \<open>
  The theorem at a file of three lines whose comment runs over two of them, read by a
  parser that returns the length of its input.
\<close>

theorem parse_json_strips_comments_witness:
  "strip_comments (''{\"a\": 1'' @ ''/*'' @ '' first line\<newline> second line '' @ ''*/'' @ ''\<newline>}'') =
     ''{\"a\": 1\<newline>}''
 \<and> parse_json (\<lambda>name. Inr ''{\"a\": 1 /* x */, \"b\": 2 // y\<newline>}'') (\<lambda>text. Inr (length text))
       ''node_extra.json'' = Inr 17"
proof -
  have block: "strip_comments (''{\"a\": 1'' @ ''/*'' @ '' first line\<newline> second line '' @ ''*/'' @ ''\<newline>}'') =
      rstrip_hws ''{\"a\": 1'' @ dropWhile hws ''\<newline>}''"
    by (rule parse_json_strips_comments [THEN conjunct2, THEN conjunct1, rule_format])
       (simp add: hws_def)
  have parsed: "parse_json (\<lambda>name. Inr ''{\"a\": 1 /* x */, \"b\": 2 // y\<newline>}'')
                (\<lambda>text. Inr (length text)) ''node_extra.json'' =
              Inr (length ''{\"a\": 1, \"b\": 2\<newline>}'')"
    by (rule parse_json_strips_comments [THEN conjunct1, rule_format]) simp
  show ?thesis
    using block parsed by (simp add: rstrip_hws_def hws_def)
qed

subsection \<open>Launching CloudMan from a snapshot manifest\<close>

lemma image_from_snaps_clouds:
  assumes "py_get copts ''bucket_source'' = Inr src"
    and "path_join src ''snaps.yaml'' = Inr path"
    and "path_exists fs path"
    and "yaml_load fs path = Inr snaps"
    and "py_item snaps ''clouds'' = Inr (PList clouds)"
  shows "image_from_snaps fs copts =
     (if length clouds \<noteq> 1 then Inl (Exception msg_one_cloud)
      else
      and_then (py_item (hd clouds) ''regions'') (\<lambda>regions.
      and_then (py_len regions) (\<lambda>n_regions.
      if n_regions \<noteq> 1 then Inl (Exception msg_one_region)
      else
      and_then (py_first regions) (\<lambda>region.
      and_then (py_item region ''deployments'') (\<lambda>deployments.
      and_then (py_len deployments) (\<lambda>n_deployments.
      if n_deployments \<noteq> 1 then Inl (Exception msg_one_deployment)
      else
      and_then (py_first deployments) (\<lambda>deployment.
      py_item deployment ''default_mi'')))))))"
proof (cases clouds)
  case Nil
  then show ?thesis using assms by (simp add: image_from_snaps_def and_then_def)
next
  case (Cons c cs)
  then show ?thesis using assms by (simp add: image_from_snaps_def and_then_def)
qed

lemma launch_from_snaps:
  assumes "py_get options ''cloudman'' = Inr copts"
    and "py_get copts ''image_id'' = Inr iid"
    and "use_snaps iid"
  shows "cloudman_launch fs options =
     and_then (image_from_snaps fs copts) (\<lambda>image_id.
     and_then (py_get copts ''size_id'') (\<lambda>size_id.
     and_then (prepare_user_data fs) (\<lambda>user_data.
     Inr \<lparr> node_name = ''cloudman'', image_id = image_id, size_id = size_id,
           ex_userdata = user_data \<rparr>)))"
  using assms by (simp add: cloudman_launch_def and_then_def)

text \<open>
  C8. Let the options ask for the image of the snapshot manifest (\<open>image_id\<close> is
  \<open>__use_snaps__\<close> in any case of letters), let the manifest \<open>snaps.yaml\<close> exist under
  the bucket source and be read, and let its \<open>clouds\<close> be a list. Then
  \<open>cloudman_launch\<close> raises the exception with the message about exactly one cloud when
  that list has not exactly one element; the one about exactly one region when the one
  cloud's \<open>regions\<close> list has not exactly one element; the one about exactly one
  deployment when the one region's \<open>deployments\<close> list has not exactly one element. With
  exactly one of each, the node is created with that deployment's \<open>default_mi\<close> as its
  image.
\<close>

theorem cloudman_launch_exactly_one:
  assumes "py_get options ''cloudman'' = Inr copts"
    and "py_get copts ''image_id'' = Inr iid"
    and "use_snaps iid"
    and "py_get copts ''bucket_source'' = Inr src"
    and "path_join src ''snaps.yaml'' = Inr path"
    and "path_exists fs path"
    and "yaml_load fs path = Inr snaps"
    and "py_item snaps ''clouds'' = Inr (PList clouds)"
  shows "(length clouds \<noteq> 1 \<longrightarrow>
            cloudman_launch fs options = Inl (Exception msg_one_cloud))
       \<and> (\<forall>cloud regions.
            clouds = [cloud] \<and> py_item cloud ''regions'' = Inr (PList regions) \<and>
            length regions \<noteq> 1 \<longrightarrow>
            cloudman_launch fs options = Inl (Exception msg_one_region))
       \<and> (\<forall>cloud region deployments.
            clouds = [cloud] \<and> py_item cloud ''regions'' = Inr (PList [region]) \<and>
            py_item region ''deployments'' = Inr (PList deployments) \<and>
            length deployments \<noteq> 1 \<longrightarrow>
            cloudman_launch fs options = Inl (Exception msg_one_deployment))
       \<and> (\<forall>cloud region deployment mi size user_data.
            clouds = [cloud] \<and> py_item cloud ''regions'' = Inr (PList [region]) \<and>
            py_item region ''deployments'' = Inr (PList [deployment]) \<and>
            py_item deployment ''default_mi'' = Inr mi \<and>
            py_get copts ''size_id'' = Inr size \<and> prepare_user_data fs = Inr user_data \<longrightarrow>
            cloudman_launch fs options =
              Inr \<lparr> node_name = ''cloudman'', image_id = mi, size_id = size,
                    ex_userdata = user_data \<rparr>)"
proof -
  note launch = launch_from_snaps [OF assms(1-3), of fs]
  note image = image_from_snaps_clouds [OF assms(4-8)]
  show ?thesis
  proof (intro conjI allI impI)
    assume "length clouds \<noteq> 1"
    then show "cloudman_launch fs options = Inl (Exception msg_one_cloud)"
      by (simp add: launch image and_then_def)
  next
    fix cloud regions
    assume "clouds = [cloud] \<and> py_item cloud ''regions'' = Inr (PList regions) \<and>
            length regions \<noteq> 1"
    then show "cloudman_launch fs options = Inl (Exception msg_one_region)"
      by (simp add: launch image and_then_def)
  next
    fix cloud region deployments
    assume "clouds = [cloud] \<and> py_item cloud ''regions'' = Inr (PList [region]) \<and>
            py_item region ''deployments'' = Inr (PList deployments) \<and>
            length deployments \<noteq> 1"
    then show "cloudman_launch fs options = Inl (Exception msg_one_deployment)"
      by (simp add: launch image and_then_def)
  next
    fix cloud region deployment mi size user_data
    assume "clouds = [cloud] \<and> py_item cloud ''regions'' = Inr (PList [region]) \<and>
            py_item region ''deployments'' = Inr (PList [deployment]) \<and>
            py_item deployment ''default_mi'' = Inr mi \<and>
            py_get copts ''size_id'' = Inr size \<and> prepare_user_data fs = Inr user_data"
    then show "cloudman_launch fs options =
              Inr \<lparr> node_name = ''cloudman'', image_id = mi, size_id = size,
                    ex_userdata = user_data \<rparr>"
      by (simp add: launch image and_then_def)
  qed
qed

text \<open>
  The theorem at a manifest with one cloud, one region and one deployment, and at a
  manifest with two clouds.
\<close>

theorem cloudman_launch_exactly_one_witness:
  "cloudman_launch
     \<lparr> path_exists = (\<lambda>p. p = ''/mnt/bucket/snaps.yaml''),
       yaml_load = (\<lambda>p. Inr (PDict [(''clouds'', PList [PDict [(''regions'', PList [PDict
                     [(''deployments'', PList [PDict [(''default_mi'', PStr ''ami-118'')]])]])]])])),
       prepare_user_data = Inr ''cluster_name: cloudman'' \<rparr>
     (PDict [(''cloudman'', PDict [(''image_id'', PStr ''__USE_SNAPS__''),
                                  (''bucket_source'', PStr ''/mnt/bucket'')])])
   = Inr \<lparr> node_name = ''cloudman'', image_id = PStr ''ami-118'', size_id = PNone,
           ex_userdata = ''cluster_name: cloudman'' \<rparr>
 \<and> cloudman_launch
     \<lparr> path_exists = (\<lambda>p. p = ''/mnt/bucket/snaps.yaml''),
       yaml_load = (\<lambda>p. Inr (PDict [(''clouds'', PList [PDict [], PDict []])])),
       prepare_user_data = Inr ''cluster_name: cloudman'' \<rparr>
     (PDict [(''cloudman'', PDict [(''image_id'', PStr ''__USE_SNAPS__''),
                                  (''bucket_source'', PStr ''/mnt/bucket'')])])
   = Inl (Exception msg_one_cloud)"
proof -
  let ?deployment = "PDict [(''default_mi'', PStr ''ami-118'')]"
  let ?region = "PDict [(''deployments'', PList [?deployment])]"
  let ?cloud = "PDict [(''regions'', PList [?region])]"
  let ?snaps = "PDict [(''clouds'', PList [?cloud])]"
  let ?snaps2 = "PDict [(''clouds'', PList [PDict [], PDict []])]"
  let ?fs = "\<lparr> path_exists = (\<lambda>p. p = ''/mnt/bucket/snaps.yaml''),
               yaml_load = (\<lambda>p. Inr ?snaps),
               prepare_user_data = Inr ''cluster_name: cloudman'' \<rparr>"
  let ?fs2 = "\<lparr> path_exists = (\<lambda>p. p = ''/mnt/bucket/snaps.yaml''),
               yaml_load = (\<lambda>p. Inr ?snaps2),
               prepare_user_data = Inr ''cluster_name: cloudman'' \<rparr>"
  let ?copts = "PDict [(''image_id'', PStr ''__USE_SNAPS__''),
                       (''bucket_source'', PStr ''/mnt/bucket'')]"
  let ?options = "PDict [(''cloudman'', ?copts)]"
  have h1: "py_get ?options ''cloudman'' = Inr ?copts" by simp
  have h2: "py_get ?copts ''image_id'' = Inr (PStr ''__USE_SNAPS__'')" by simp
  have h3: "use_snaps (PStr ''__USE_SNAPS__'')" by code_simp
  have h4: "py_get ?copts ''bucket_source'' = Inr (PStr ''/mnt/bucket'')" by simp
  have h5: "path_join (PStr ''/mnt/bucket'') ''snaps.yaml'' = Inr ''/mnt/bucket/snaps.yaml''"
    by (simp add: join_path_def)
  have h6: "path_exists ?fs ''/mnt/bucket/snaps.yaml''" by simp
  have h7: "yaml_load ?fs ''/mnt/bucket/snaps.yaml'' = Inr ?snaps" by simp
  have h8: "py_item ?snaps ''clouds'' = Inr (PList [?cloud])" by simp
  have g6: "path_exists ?fs2 ''/mnt/bucket/snaps.yaml''" by simp
  have g7: "yaml_load ?fs2 ''/mnt/bucket/snaps.yaml'' = Inr ?snaps2" by simp
  have g8: "py_item ?snaps2 ''clouds'' = Inr (PList [PDict [], PDict []])" by simp
  have one: "cloudman_launch ?fs ?options =
      Inr \<lparr> node_name = ''cloudman'', image_id = PStr ''ami-118'', size_id = PNone,
            ex_userdata = ''cluster_name: cloudman'' \<rparr>"
    by (rule cloudman_launch_exactly_one [OF h1 h2 h3 h4 h5 h6 h7 h8,
          THEN conjunct2, THEN conjunct2, THEN conjunct2, rule_format,
          of ?cloud ?region ?deployment]) simp
  have two: "cloudman_launch ?fs2 ?options = Inl (Exception msg_one_cloud)"
    by (rule cloudman_launch_exactly_one [OF h1 h2 h3 h4 h5 g6 g7 g8,
          THEN conjunct1, rule_format]) simp
  show ?thesis using one two by simp
qed

subsection \<open>The phases of an installation\<close>

lemma thn_ret_left: "thn (ret x) m = m"
  by (simp add: thn_def bnd_def ret_def)

lemma thn_ret_unit: "thn m (ret ()) = (m :: ('s, unit) act)"
  by (auto simp: thn_def bnd_def ret_def fun_eq_iff split: prod.splits sum.splits)

lemma thn_assoc: "thn (thn a b) c = thn a (thn b c)"
  by (auto simp: thn_def bnd_def fun_eq_iff split: prod.splits sum.splits)

lemma bnd_cong_fun: "(\<And>x. f x = g x) \<Longrightarrow> bnd m f = bnd m g"
  by (rule arg_cong [where f = "bnd m"]) (rule ext)

lemma selected_phases:
  "filter (selected target) phase_order =
     (if target = None then phase_order
      else if target = Some ''packages'' then [Packages]
      else if target = Some ''custom'' then [Custom]
      else if target = Some ''chef_recipes'' then [ChefRecipes]
      else if target = Some ''libraries'' then [Libraries]
      else if target = Some ''post_install'' then [PostInstall]
      else if target = Some ''cleanup'' then [Cleanup]
      else [])"
  by (auto simp: selected_def phase_order_def)

lemma perform_install_run_phases:
  "perform_install pr env target flavor =
     bnd (read_main_config_proc pr) (\<lambda>cfg.
       run_phases pr env target flavor cfg (filter (selected target) phase_order))"
  unfolding perform_install_def Let_def
proof (rule bnd_cong_fun)
  fix cfg
  show "thn (when_do (target = None \<or> target = Some ''packages'')
             (thn (configure_and_install_native_packages pr (fst cfg))
             (thn (when_do (nixpkgs env)
                     (thn (setup_nix_sources pr) (nix_packages pr (fst cfg))))
                  (update_biolinux_log pr target flavor))))
     (thn (when_do (target = None \<or> target = Some ''custom'')
             (custom_installs_proc pr (fst cfg) (snd (snd cfg))))
     (thn (when_do (target = None \<or> target = Some ''chef_recipes'')
             (provision_chef_recipes pr (fst cfg) (snd (snd cfg))))
     (thn (when_do (target = None \<or> target = Some ''libraries'')
             (do_library_installs_proc pr (fst (snd cfg))))
     (thn (when_do (target = None \<or> target = Some ''post_install'')
             (thn (edition_post_install pr (fst cfg)) (flavor_post_install pr)))
          (when_do (target = None \<or> target = Some ''cleanup'')
             (thn (cleanup_space pr)
                  (when_do (case is_ec2_image env of
                              None \<Rightarrow> False
                            | Some v \<Rightarrow> upper v \<in> set [''TRUE'', ''YES''])
                     (thn (when_do (distribution env \<in> set [''ubuntu''])
                             (thn (sudo pr (''wget --output-document=cloud-init_0.7.1-0ubuntu4_all.deb '' @
                                            ''https://launchpad.net/ubuntu/+archive/primary/+files/cloud-init_0.7.1-0ubuntu4_all.deb''))
                             (thn (sudo pr ''dpkg -i cloud-init_0.7.1-0ubuntu4_all.deb'')
                                  (sudo pr ''rm -f cloud-init_0.7.1-0ubuntu4_all.deb''))))
                          (cleanup_ec2 pr)))))))))
     = run_phases pr env target flavor cfg (filter (selected target) phase_order)"
    unfolding selected_phases run_phases_def
    by (simp add: phase_order_def when_do_def thn_ret_left thn_ret_unit thn_assoc)
qed

text \<open>
  C1. After reading the main configuration, \<open>_perform_install\<close> runs the phases that the
  target selects, each of them once, in the order packages, custom, chef_recipes,
  libraries, post_install, cleanup: a phase is selected when the target is \<open>None\<close> or is
  its name. With the target \<open>libraries\<close> this is the library installation alone, and
  with the target \<open>None\<close> all six phases in that order.
\<close>

theorem perform_install_phases:
  "perform_install pr env target flavor =
     bnd (read_main_config_proc pr) (\<lambda>cfg.
       run_phases pr env target flavor cfg (filter (selected target) phase_order))
 \<and> (\<forall>ph. count_list (filter (selected target) phase_order) ph =
            (if selected target ph then 1 else 0))
 \<and> perform_install pr env (Some ''libraries'') flavor =
     bnd (read_main_config_proc pr) (\<lambda>cfg. do_library_installs_proc pr (fst (snd cfg)))
 \<and> perform_install pr env None flavor =
     bnd (read_main_config_proc pr) (\<lambda>cfg.
       run_phases pr env None flavor cfg
         [Packages, Custom, ChefRecipes, Libraries, PostInstall, Cleanup])"
proof (intro conjI allI)
  show "perform_install pr env target flavor =
     bnd (read_main_config_proc pr) (\<lambda>cfg.
       run_phases pr env target flavor cfg (filter (selected target) phase_order))"
    by (rule perform_install_run_phases)
next
  fix ph
  show "count_list (filter (selected target) phase_order) ph =
            (if selected target ph then 1 else 0)"
    by (cases ph) (auto simp: selected_def phase_order_def)
next
  show "perform_install pr env (Some ''libraries'') flavor =
     bnd (read_main_config_proc pr) (\<lambda>cfg. do_library_installs_proc pr (fst (snd cfg)))"
    unfolding perform_install_run_phases selected_phases
    by (simp add: run_phases_def thn_ret_unit)
next
  show "perform_install pr env None flavor =
     bnd (read_main_config_proc pr) (\<lambda>cfg.
       run_phases pr env None flavor cfg
         [Packages, Custom, ChefRecipes, Libraries, PostInstall, Cleanup])"
    unfolding perform_install_run_phases selected_phases
    by (simp add: phase_order_def)
qed

text \<open>
  The theorem with procedures that write down their phase: the phases written down by
  a run without a target, and by runs with the targets \<open>libraries\<close> and \<open>custom\<close>.
\<close>

theorem perform_install_phases_witness:
  "perform_install (noting_procedures ([''minimal''], [''python-libs''], None))
      \<lparr> local_install = ''/usr/local'', system_install = ''/usr'', python_version_ext = [],
        ruby_version_ext = None, pip_cmd = ''pip'', use_sudo = True, nixpkgs = False,
        is_ec2_image = None, distribution = ''ubuntu'' \<rparr> None None []
    = (Inr (), [Packages, Custom, ChefRecipes, Libraries, PostInstall, Cleanup])
 \<and> perform_install (noting_procedures ([''minimal''], [''python-libs''], None))
      \<lparr> local_install = ''/usr/local'', system_install = ''/usr'', python_version_ext = [],
        ruby_version_ext = None, pip_cmd = ''pip'', use_sudo = True, nixpkgs = False,
        is_ec2_image = None, distribution = ''ubuntu'' \<rparr> (Some ''libraries'') None []
    = (Inr (), [Libraries])
 \<and> perform_install (noting_procedures ([''minimal''], [''python-libs''], None))
      \<lparr> local_install = ''/usr/local'', system_install = ''/usr'', python_version_ext = [],
        ruby_version_ext = None, pip_cmd = ''pip'', use_sudo = True, nixpkgs = False,
        is_ec2_image = None, distribution = ''ubuntu'' \<rparr> (Some ''custom'') None []
    = (Inr (), [Custom])"
proof -
  let ?pr = "noting_procedures ([''minimal''], [''python-libs''], None)"
  let ?env = "\<lparr> local_install = ''/usr/local'', system_install = ''/usr'',
        python_version_ext = [], ruby_version_ext = None, pip_cmd = ''pip'', use_sudo = True,
        nixpkgs = False, is_ec2_image = None, distribution = ''ubuntu'' \<rparr>"
  note all = perform_install_phases [of ?pr ?env None None,
      THEN conjunct2, THEN conjunct2, THEN conjunct2]
  note libs = perform_install_phases [of ?pr ?env None None,
      THEN conjunct2, THEN conjunct2, THEN conjunct1]
  note any = perform_install_phases [of ?pr ?env "Some ''custom''" None, THEN conjunct1]
  have a: "perform_install ?pr ?env None None [] =
      (Inr (), [Packages, Custom, ChefRecipes, Libraries, PostInstall, Cleanup])"
    unfolding all
    by (simp add: run_phases_def noting_procedures_def mark_def bnd_def thn_def ret_def
          when_do_def)
  have b: "perform_install ?pr ?env (Some ''libraries'') None [] = (Inr (), [Libraries])"
    unfolding libs
    by (simp add: noting_procedures_def mark_def bnd_def ret_def)
  have c: "perform_install ?pr ?env (Some ''custom'') None [] = (Inr (), [Custom])"
    unfolding any selected_phases
    by (simp add: run_phases_def noting_procedures_def mark_def bnd_def thn_def ret_def)
  show ?thesis using a b c by simp
qed

subsection \<open>The custom install dispatcher\<close>

lemma replace_map: "replace s a b = map (\<lambda>c. if c = a then b else c) s"
  by (induction s) simp_all

lemma ask_apply: "ask reply ev h = (reply h ev, h @ [ev])"
  by (simp add: ask_def)

lemma bnd_apply:
  "bnd m f h = (case m h of (Inl e, h') \<Rightarrow> (Inl e, h') | (Inr x, h') \<Rightarrow> f x h')"
  by (simp add: bnd_def)

lemma thn_apply:
  "thn m n h = (case m h of (Inl e, h') \<Rightarrow> (Inl e, h') | (Inr x, h') \<Rightarrow> n h')"
  by (simp add: thn_def bnd_def)

lemma try_except_apply:
  "try_except m is_E handler h =
     (case m h of
        (Inl e, h') \<Rightarrow> (if is_E e then handler h' else (Inl e, h'))
      | (Inr x, h') \<Rightarrow> (Inr x, h'))"
  by (simp add: try_except_def)

lemma ret_apply: "ret x h = (Inr x, h)"
  by (simp add: ret_def)

lemma throw_apply: "throw e h = (Inl e, h)"
  by (simp add: throw_def)

lemmas act_apply = ask_apply bnd_apply thn_apply try_except_apply ret_apply throw_apply

lemma install_custom_automated:
  assumes "install_custom w env p True (Some g) flavor h = (r, h')"
  shows "\<exists>tr. h' = h @ tr \<and> prefix tr (dispatch_events g p) \<and>
              (r = Inr () \<longrightarrow> tr = dispatch_events g p)"
  using assms
  unfolding install_custom_def dispatch_events_def start_events_def resolve_events_def
    module_of_def entry_name_def symbol_name_def Let_def contains_key_def subscript_def
  by (auto simp: act_apply replace_map prefix_def
           split: sum.splits prod.splits if_splits option.splits;
      metis sum.distinct(1))

lemma install_custom_from_file:
  assumes "install_custom w env p False any flavor h = (Inr (), h')"
  shows "\<exists>pkg_config packages g.
            w_pkgs w (h @ start_events p @
                        [ConfigureFabricEnvironment flavor, GetConfigFile ''custom.yaml''])
              (YamlToPackages pkg_config None) = Inr (packages, g) \<and>
            h' = h @ start_events p @ load_events flavor pkg_config @ resolve_events g p"
  using assms
  unfolding install_custom_def start_events_def load_events_def resolve_events_def
    module_of_def entry_name_def symbol_name_def Let_def contains_key_def subscript_def
  by (auto simp: act_apply replace_map
           split: sum.split_asm prod.split_asm if_split_asm option.split_asm)

text \<open>
  C4. Whatever the world answers, the events of a call \<open>install_custom(p, True, g)\<close>
  are the first events of \<open>dispatch_events g p\<close>, and all of them when the call returns:
  the logging of the lower-case name, the import of the module \<open>cloudbio.custom.\<close>
  followed by the group of the lower-case name (or by that name itself when it has no
  group), hyphens as they are, and the call of the function \<open>install_\<close> followed by the
  lower-case name with underscores for hyphens, of that module. A call that is not
  automated and returns has, between the first two of these events and the others, the
  loading of the dictionary, and resolves the names under the dictionary that was loaded.
\<close>

theorem install_custom_resolution:
  "(install_custom w env p True (Some g) flavor h = (r, h') \<longrightarrow>
      (\<exists>tr. h' = h @ tr \<and> prefix tr (dispatch_events g p) \<and>
            (r = Inr () \<longrightarrow> tr = dispatch_events g p)))
 \<and> (install_custom w env p False any flavor h = (Inr (), h2) \<longrightarrow>
      (\<exists>pkg_config packages g2.
          w_pkgs w (h @ start_events p @
                      [ConfigureFabricEnvironment flavor, GetConfigFile ''custom.yaml''])
            (YamlToPackages pkg_config None) = Inr (packages, g2) \<and>
          h2 = h @ start_events p @ load_events flavor pkg_config @ resolve_events g2 p))"
  using install_custom_automated [of w env p g flavor h r h']
    install_custom_from_file [of w env p any flavor h h2]
  by blast

text \<open>
  The theorem at the package \<open>Rpy2-Tools\<close> of the group \<open>python\<close>, in a world where the
  module \<open>cloudbio.custom.python\<close> has the function \<open>install_rpy2_tools\<close>.
\<close>

theorem install_custom_resolution_witness:
  "install_custom
     (quiet_world \<lparr> w_module := (\<lambda>h ev. Inr (\<lambda>name. name = ''install_rpy2_tools'')) \<rparr>)
     example_env ''Rpy2-Tools'' True (Some [''rpy2-tools'' \<mapsto> ''python'']) None []
   = (Inr (),
      [SetupLogging,
       TimeStats (''Custom install for '' @ quoted ''rpy2-tools'') ''start'',
       LogDebug ''Import rpy2-tools'',
       Import ''cloudbio.custom.python'',
       CallEntry ''cloudbio.custom.python'' ''install_rpy2_tools'',
       TimeStats (''Custom install for '' @ quoted ''rpy2_tools'') ''end''])"
proof -
  let ?w = "quiet_world \<lparr> w_module := (\<lambda>h ev. Inr (\<lambda>name. name = ''install_rpy2_tools'')) \<rparr>"
  let ?g = "[''rpy2-tools'' \<mapsto> ''python'']"
  obtain r h' where run: "install_custom ?w example_env ''Rpy2-Tools'' True (Some ?g) None [] = (r, h')"
    by (cases "install_custom ?w example_env ''Rpy2-Tools'' True (Some ?g) None []") auto
  have lp: "lower ''Rpy2-Tools'' = ''rpy2-tools''" by code_simp
  have r: "r = Inr ()"
    using run
    by (simp add: install_custom_def quiet_world_def act_apply Let_def contains_key_def
          subscript_def lp replace_map)
  from install_custom_resolution [of ?w example_env "''Rpy2-Tools''" ?g None "[]" r h',
      THEN conjunct1, rule_format, OF run] r
  have "h' = dispatch_events ?g ''Rpy2-Tools''" by auto
  then show ?thesis
    using run r
    by (simp add: dispatch_events_def start_events_def resolve_events_def module_of_def
          entry_name_def symbol_name_def lp)
qed

text \<open>
  C3 fails on the code. For a name that is not a key of \<open>pkg_to_group\<close> and has no
  module, the handler of the first \<open>try\<close> evaluates \<open>pkg_to_group[p]\<close> for its message
  and raises \<open>KeyError\<close> instead of the \<open>ImportError\<close> it is building; so does the handler
  of the second \<open>try\<close>, which looks the name up after its hyphens have been replaced.
  The three runs: \<open>install_custom('nosuchpkg')\<close> as from the command line, the same
  call as \<open>_custom_installs\<close> makes it, and a listed package \<open>foo-bar\<close> whose group module
  has no function \<open>install_foo_bar\<close>.
\<close>

theorem install_custom_unlisted_raises_KeyError:
  "install_custom quiet_world example_env ''nosuchpkg'' False None None []
   = (Inl (KeyError ''nosuchpkg''),
      [SetupLogging,
       TimeStats (''Custom install for '' @ quoted ''nosuchpkg'') ''start'',
       ConfigureFabricEnvironment None,
       GetConfigFile ''custom.yaml'',
       YamlToPackages [] None,
       LogDebug ''Import nosuchpkg'',
       Import ''cloudbio.custom.nosuchpkg''])
 \<and> install_custom quiet_world example_env ''nosuchpkg'' True (Some Map.empty) None []
   = (Inl (KeyError ''nosuchpkg''),
      [SetupLogging,
       TimeStats (''Custom install for '' @ quoted ''nosuchpkg'') ''start'',
       LogDebug ''Import nosuchpkg'',
       Import ''cloudbio.custom.nosuchpkg''])
 \<and> install_custom (quiet_world \<lparr> w_module := (\<lambda>h ev. Inr (\<lambda>name. False)) \<rparr>)
      example_env ''foo-bar'' True (Some [''foo-bar'' \<mapsto> ''bio_general'']) None []
   = (Inl (KeyError ''foo_bar''),
      [SetupLogging,
       TimeStats (''Custom install for '' @ quoted ''foo-bar'') ''start'',
       LogDebug ''Import foo-bar'',
       Import ''cloudbio.custom.bio_general''])"
proof -
  have l1: "lower ''nosuchpkg'' = ''nosuchpkg''" by code_simp
  have l2: "lower ''foo-bar'' = ''foo-bar''" by code_simp
  show ?thesis
    by (simp add: install_custom_def quiet_world_def act_apply Let_def contains_key_def
          subscript_def l1 l2 replace_map)
qed

subsection \<open>The custom install phase\<close>

text \<open>
  C2. Let the resolver \<open>_yaml_to_packages\<close> have returned the list \<open>packages\<close> and the
  dictionary \<open>g\<close> (the calls before it having returned too: \<open>h1\<close> is the history after
  the test for the install directory and its creation). Then
  \<^item> the list handed to the flavor's hook, \<open>filter (not_ignored ignore) packages\<close>, has no
    member of the ignore list;
  \<^item> when the hook returns only names of the list it was given (it may drop and reorder
    them), no member of the ignore list is among the items iterated over;
  \<^item> the dispatcher is called for the items that the hook returned, in their order, each
    time with \<open>g\<close> itself, from which nothing has been removed: every entry of \<open>g\<close>,
    those of ignored packages too, is an entry of the dictionary the dispatcher gets;
  \<^item> \<open>_custom_installs\<close> of the fabfile is this with \<open>install_custom\<close> as the dispatcher.
\<close>

theorem custom_installs_ignore:
  assumes "w_bool w h (Exists (local_install env)) = Inr there"
    and "\<not> there \<Longrightarrow>
         w_str w (h @ [Exists (local_install env)]) (Run (''mkdir -p '' @ local_install env)) =
           Inr out"
    and "h1 = h @ Exists (local_install env) #
                (if there then [] else [Run (''mkdir -p '' @ local_install env)])"
    and "w_str w h1 (GetConfigFile ''custom.yaml'') = Inr pkg_config"
    and "w_pkgs w (h1 @ [GetConfigFile ''custom.yaml''])
           (YamlToPackages pkg_config (Some to_install)) = Inr (packages, g)"
    and "w_list w (h1 @ [GetConfigFile ''custom.yaml'',
                         YamlToPackages pkg_config (Some to_install)])
           (Rewrite ''custom'' (filter (not_ignored ignore) packages)) = Inr items"
  shows "(\<forall>names. ignore = Some names \<longrightarrow>
            set (filter (not_ignored ignore) packages) \<inter> set names = {})
       \<and> (\<forall>names. ignore = Some names \<and>
                  set items \<subseteq> set (filter (not_ignored ignore) packages) \<longrightarrow>
            set items \<inter> set names = {})
       \<and> custom_installs_with dispatch w env to_install ignore h =
           for_each (\<lambda>p. dispatch p True (Some g)) items
             (h1 @ [GetConfigFile ''custom.yaml'',
                    YamlToPackages pkg_config (Some to_install),
                    Rewrite ''custom'' (filter (not_ignored ignore) packages)])
       \<and> custom_installs w env to_install ignore h =
           for_each (\<lambda>p. install_custom w env p True (Some g) None) items
             (h1 @ [GetConfigFile ''custom.yaml'',
                    YamlToPackages pkg_config (Some to_install),
                    Rewrite ''custom'' (filter (not_ignored ignore) packages)])"
proof -
  have with_any: "custom_installs_with d w env to_install ignore h =
           for_each (\<lambda>p. d p True (Some g)) items
             (h1 @ [GetConfigFile ''custom.yaml'',
                    YamlToPackages pkg_config (Some to_install),
                    Rewrite ''custom'' (filter (not_ignored ignore) packages)])" for d
  proof (cases there)
    case True
    then show ?thesis
      using assms
      by (simp add: custom_installs_with_def act_apply when_do_def run_def
            rewrite_config_items_def Let_def)
  next
    case False
    then show ?thesis
      using assms
      by (simp add: custom_installs_with_def act_apply when_do_def run_def
            rewrite_config_items_def Let_def)
  qed
  have flat: "set (filter (not_ignored ignore) packages) \<inter> set names = {}"
    if "ignore = Some names" for names
    using that by (auto simp: not_ignored_def)
  then have sub: "set items \<inter> set names = {}"
    if "ignore = Some names" "set items \<subseteq> set (filter (not_ignored ignore) packages)"
    for names
    using that by blast
  show ?thesis
  proof (intro conjI allI impI)
    fix names
    assume "ignore = Some names"
    then show "set (filter (not_ignored ignore) packages) \<inter> set names = {}"
      by (rule flat)
  next
    fix names
    assume "ignore = Some names \<and>
            set items \<subseteq> set (filter (not_ignored ignore) packages)"
    then show "set items \<inter> set names = {}"
      using sub by blast
  next
    show "custom_installs_with dispatch w env to_install ignore h =
           for_each (\<lambda>p. dispatch p True (Some g)) items
             (h1 @ [GetConfigFile ''custom.yaml'',
                    YamlToPackages pkg_config (Some to_install),
                    Rewrite ''custom'' (filter (not_ignored ignore) packages)])"
      by (rule with_any)
  next
    show "custom_installs w env to_install ignore h =
           for_each (\<lambda>p. install_custom w env p True (Some g) None) items
             (h1 @ [GetConfigFile ''custom.yaml'',
                    YamlToPackages pkg_config (Some to_install),
                    Rewrite ''custom'' (filter (not_ignored ignore) packages)])"
      unfolding custom_installs_def by (rule with_any)
  qed
qed

text \<open>
  The theorem in a world whose resolver returns three packages of one group, with
  \<open>gatk\<close> ignored, and with a dispatcher that writes down the package it is called for
  and the group that its dictionary has for \<open>gatk\<close>.
\<close>

theorem custom_installs_ignore_witness:
  "custom_installs_with
     (\<lambda>p automated pkg_to_group.
        ask (\<lambda>h ev. Inr ())
          (CallEntry p (case pkg_to_group of
                          None \<Rightarrow> ''no dictionary''
                        | Some g \<Rightarrow> (case g ''gatk'' of None \<Rightarrow> ''no entry'' | Some grp \<Rightarrow> grp))))
     (quiet_world \<lparr> w_pkgs := (\<lambda>h ev. Inr ([''bwa'', ''gatk'', ''samtools''],
          [''bwa'' \<mapsto> ''bio_nextgen'', ''gatk'' \<mapsto> ''bio_nextgen'',
           ''samtools'' \<mapsto> ''bio_nextgen''])) \<rparr>)
     example_env [''bio_nextgen''] (Some [''gatk'']) []
   = (Inr (),
      [Exists ''/usr/local'', GetConfigFile ''custom.yaml'',
       YamlToPackages [] (Some [''bio_nextgen'']),
       Rewrite ''custom'' [''bwa'', ''samtools''],
       CallEntry ''bwa'' ''bio_nextgen'', CallEntry ''samtools'' ''bio_nextgen''])"
proof -
  let ?g = "[''bwa'' \<mapsto> ''bio_nextgen'', ''gatk'' \<mapsto> ''bio_nextgen'',
             ''samtools'' \<mapsto> ''bio_nextgen'']"
  let ?w = "quiet_world \<lparr> w_pkgs := (\<lambda>h ev. Inr ([''bwa'', ''gatk'', ''samtools''], ?g)) \<rparr>"
  let ?d = "\<lambda>p (automated :: bool) pkg_to_group.
        ask (\<lambda>h ev. Inr ())
          (CallEntry p (case pkg_to_group of
                          None \<Rightarrow> ''no dictionary''
                        | Some g \<Rightarrow> (case g ''gatk'' of None \<Rightarrow> ''no entry'' | Some grp \<Rightarrow> grp)))"
  let ?h1 = "[Exists ''/usr/local'']"
  have a1: "w_bool ?w [] (Exists (local_install example_env)) = Inr True"
    by (simp add: quiet_world_def)
  have a2: "\<not> True \<Longrightarrow>
      w_str ?w ([] @ [Exists (local_install example_env)])
        (Run (''mkdir -p '' @ local_install example_env)) = Inr []"
    by simp
  have a3: "?h1 = [] @ Exists (local_install example_env) #
      (if True then [] else [Run (''mkdir -p '' @ local_install example_env)])"
    by (simp add: example_env_def)
  have a4: "w_str ?w ?h1 (GetConfigFile ''custom.yaml'') = Inr []"
    by (simp add: quiet_world_def)
  have a5: "w_pkgs ?w (?h1 @ [GetConfigFile ''custom.yaml''])
      (YamlToPackages [] (Some [''bio_nextgen''])) = Inr ([''bwa'', ''gatk'', ''samtools''], ?g)"
    by (simp add: quiet_world_def)
  have a6: "w_list ?w (?h1 @ [GetConfigFile ''custom.yaml'',
                              YamlToPackages [] (Some [''bio_nextgen''])])
      (Rewrite ''custom'' (filter (not_ignored (Some [''gatk''])) [''bwa'', ''gatk'', ''samtools'']))
      = Inr [''bwa'', ''samtools'']"
    by (simp add: quiet_world_def not_ignored_def)
  note t = custom_installs_ignore [OF a1 a2 a3 a4 a5 a6, of ?d,
      THEN conjunct2, THEN conjunct2, THEN conjunct1]
  show ?thesis
    using t by (simp add: act_apply not_ignored_def)
qed

subsection \<open>The library installers and the flavor's hook\<close>

lemma hookless_ret: "hookless (ret x)"
  by (simp add: hookless_def ret_def hook_calls_def)

lemma hookless_throw: "hookless (throw e)"
  by (simp add: hookless_def throw_def hook_calls_def)

lemma hookless_ask: "\<not> is_Rewrite ev \<Longrightarrow> hookless (ask reply ev)"
  by (simp add: hookless_def ask_def hook_calls_def)

lemma hookless_bnd:
  assumes "hookless m" and "\<And>x. hookless (f x)"
  shows "hookless (bnd m f)"
  unfolding hookless_def
proof (intro allI impI)
  fix h r h'
  assume run: "bnd m f h = (r, h')"
  obtain r1 h1 where m: "m h = (r1, h1)" by (cases "m h") auto
  with assms(1) obtain tr1 where h1: "h1 = h @ tr1" "hook_calls tr1 = []"
    unfolding hookless_def by blast
  show "\<exists>tr. h' = h @ tr \<and> hook_calls tr = []"
  proof (cases r1)
    case (Inl e)
    then have "h' = h1" using run m by (simp add: bnd_def)
    then show ?thesis using h1 by auto
  next
    case (Inr x)
    then have "f x h1 = (r, h')" using run m by (simp add: bnd_def)
    with assms(2)[of x] obtain tr2 where "h' = h1 @ tr2" "hook_calls tr2 = []"
      unfolding hookless_def by blast
    then show ?thesis using h1 by (auto simp: hook_calls_def)
  qed
qed

lemma hookless_thn: "hookless m \<Longrightarrow> hookless n \<Longrightarrow> hookless (thn m n)"
  unfolding thn_def by (rule hookless_bnd)

lemma hookless_when_do: "hookless m \<Longrightarrow> hookless (when_do b m)"
  by (simp add: when_do_def hookless_ret)

lemma hookless_if: "hookless a \<Longrightarrow> hookless b \<Longrightarrow> hookless (if c then a else b)"
  by simp

lemma hookless_for_each: "(\<And>x. hookless (body x)) \<Longrightarrow> hookless (for_each body xs)"
  by (induction xs) (simp_all add: hookless_ret hookless_thn)

lemma hookless_run: "hookless (run w cmd)"
  by (simp add: run_def hookless_ask)

lemma hookless_safe_sudo: "hookless (safe_sudo w cmd)"
  by (simp add: safe_sudo_def hookless_ask)

lemma hookless_append_file: "hookless (append_file w f t)"
  by (simp add: append_file_def hookless_ask)

lemma hookless_cfg_str: "hookless (cfg_str cfg key)"
  by (simp add: cfg_str_def hookless_ret hookless_throw split: option.splits)

lemma hookless_cfg_list: "hookless (cfg_list cfg key)"
  by (simp add: cfg_list_def hookless_ret hookless_throw split: option.splits)

lemmas hookless_intros =
  hookless_ret hookless_throw hookless_ask hookless_bnd hookless_thn hookless_when_do
  hookless_for_each hookless_run hookless_safe_sudo hookless_append_file hookless_cfg_str
  hookless_cfg_list

lemma hookless_r: "hookless (r_library_installer w env cfg)"
  unfolding r_library_installer_def Let_def
  by (intro hookless_intros) simp_all

lemma hookless_clojure: "hookless (clojure_library_installer w env cfg)"
  unfolding clojure_library_installer_def
  by (intro hookless_intros)

lemma hookless_haskell: "hookless (haskell_library_installer w env cfg)"
  unfolding haskell_library_installer_def Let_def
  by (intro hookless_intros)

lemma hookless_cur_gems: "hookless (cur_gems w env)"
  unfolding cur_gems_def by (intro hookless_intros)

lemma hookless_ruby_loop: "hookless (ruby_loop w env gems installed)"
proof (induction gems arbitrary: installed)
  case Nil
  show ?case by (simp add: hookless_ret)
next
  case (Cons gem gems)
  show ?case
    unfolding ruby_loop.simps
    by (intro hookless_bnd hookless_thn hookless_if hookless_cur_gems hookless_ret
          hookless_safe_sudo Cons.IH)
qed

text \<open>
  After the hook has been called from the history \<open>h0\<close>, an action without further
  calls of the hook completes the run.
\<close>

lemma after_hook:
  assumes "hookless m" and "m (h0 @ [Rewrite category items]) = (r, h')"
  shows "\<exists>rest. h' = h0 @ Rewrite category items # rest \<and>
                hook_calls (Rewrite category items # rest) = [Rewrite category items]"
proof -
  from assms obtain tr where "h' = (h0 @ [Rewrite category items]) @ tr" "hook_calls tr = []"
    unfolding hookless_def by blast
  then show ?thesis by (auto simp: hook_calls_def)
qed

lemma python_hook:
  assumes "python_library_installer w env cfg h = (r, h')"
  shows "\<exists>tr. h' = h @ tr \<and>
     ((r \<noteq> Inr () \<and> hook_calls tr = []) \<or>
      (\<exists>d items rest. tr = prologue ''python-libs'' env d @ Rewrite ''python'' items # rest \<and>
          lists cfg ''pypi'' = Some items \<and> hook_calls tr = [Rewrite ''python'' items]))"
proof -
  let ?easy = "SafeSudo (''easy_install'' @
           (if python_version_ext env \<noteq> [] then ''-'' @ python_version_ext env else []) @
           '' -U pip'')"
  let ?loop = "\<lambda>items. for_each (\<lambda>pname.
       thn (safe_sudo w (pip_cmd env @ '' install --upgrade '' @ pname)) (ret ())) items"
  have pro: "prologue ''python-libs'' env d = [?easy]" for d
    by (simp add: prologue_def)
  have loop: "hookless (?loop items)" for items
    by (intro hookless_intros)
  show ?thesis
  proof (cases "w_str w h ?easy")
    case (Inl e)
    then have "r = Inl e" "h' = h @ [?easy]"
      using assms by (simp_all add: python_library_installer_def Let_def act_apply safe_sudo_def)
    then show ?thesis by (simp add: hook_calls_def)
  next
    case easy: (Inr out)
    show ?thesis
    proof (cases "lists cfg ''pypi''")
      case None
      then have "r = Inl (KeyError ''pypi'')" "h' = h @ [?easy]"
        using assms easy
        by (simp_all add: python_library_installer_def Let_def act_apply safe_sudo_def
              cfg_list_def)
      then show ?thesis by (simp add: hook_calls_def)
    next
      case (Some pypi)
      let ?h0 = "h @ [?easy]"
      show ?thesis
      proof (cases "w_list w ?h0 (Rewrite ''python'' pypi)")
        case (Inl e)
        then have "r = Inl e" "h' = ?h0 @ [Rewrite ''python'' pypi]"
          using assms easy Some
          by (simp_all add: python_library_installer_def Let_def act_apply safe_sudo_def
                cfg_list_def rewrite_config_items_def)
        then show ?thesis using Some by (auto simp: hook_calls_def pro)
      next
        case (Inr items)
        then have "?loop items (?h0 @ [Rewrite ''python'' pypi]) = (r, h')"
          using assms easy Some
          by (simp add: python_library_installer_def Let_def act_apply safe_sudo_def
                cfg_list_def rewrite_config_items_def)
        from after_hook [OF loop this] obtain rest
          where "h' = ?h0 @ Rewrite ''python'' pypi # rest"
            "hook_calls (Rewrite ''python'' pypi # rest) = [Rewrite ''python'' pypi]"
          by blast
        then show ?thesis using Some by (auto simp: hook_calls_def pro)
      qed
    qed
  qed
qed

lemma ruby_hook_run:
  assumes "ruby_library_installer w env cfg h = (r, h')"
  shows "(r \<noteq> Inr () \<and> h' = h @ [Run (gem_list_cmd env)])
       \<or> (\<exists>gem_info gems.
            w_str w h (Run (gem_list_cmd env)) = Inr gem_info \<and>
            lists cfg ''gems'' = Some gems \<and>
            ((r \<noteq> Inr () \<and> h' = h @ [Run (gem_list_cmd env), Rewrite ''ruby'' gems]) \<or>
             (\<exists>items.
                w_list w (h @ [Run (gem_list_cmd env)]) (Rewrite ''ruby'' gems) = Inr items \<and>
                ruby_loop w env items (gem_lines gem_info)
                  (h @ [Run (gem_list_cmd env), Rewrite ''ruby'' gems]) = (r, h'))))"
  using assms
  unfolding ruby_library_installer_def cur_gems_def run_def cfg_list_def
    rewrite_config_items_def
  by (auto simp: act_apply split: sum.splits option.splits prod.splits)

lemma ruby_hook:
  assumes "ruby_library_installer w env cfg h = (r, h')"
  shows "\<exists>tr. h' = h @ tr \<and>
     ((r \<noteq> Inr () \<and> hook_calls tr = []) \<or>
      (\<exists>d items rest. tr = prologue ''ruby-libs'' env d @ Rewrite ''ruby'' items # rest \<and>
          lists cfg ''gems'' = Some items \<and> hook_calls tr = [Rewrite ''ruby'' items]))"
proof -
  let ?q = "Run (gem_list_cmd env)"
  have pro: "prologue ''ruby-libs'' env d = [?q]" for d
    by (simp add: prologue_def)
  from ruby_hook_run [OF assms] consider
      (query) "r \<noteq> Inr ()" "h' = h @ [?q]"
    | (hook) gems where "lists cfg ''gems'' = Some gems" "r \<noteq> Inr ()"
        "h' = h @ [?q, Rewrite ''ruby'' gems]"
    | (loop) gem_info gems items where "lists cfg ''gems'' = Some gems"
        "ruby_loop w env items (gem_lines gem_info) ((h @ [?q]) @ [Rewrite ''ruby'' gems]) = (r, h')"
    by auto
  then show ?thesis
  proof cases
    case query
    then show ?thesis by (simp add: hook_calls_def)
  next
    case hook
    then show ?thesis by (auto simp: hook_calls_def pro)
  next
    case loop
    from after_hook [OF hookless_ruby_loop loop(2)] obtain rest
      where "h' = (h @ [?q]) @ Rewrite ''ruby'' gems # rest"
        "hook_calls (Rewrite ''ruby'' gems # rest) = [Rewrite ''ruby'' gems]"
      by blast
    then show ?thesis using loop(1) by (auto simp: hook_calls_def pro)
  qed
qed

lemma perl_hook_run:
  assumes "perl_library_installer w env cfg h = (r, h')"
  shows "(r \<noteq> Inr () \<and> (\<exists>tr. h' = h @ tr \<and> hook_calls tr = []))
       \<or> (\<exists>d cpan.
            lists cfg ''cpan'' = Some cpan \<and>
            ((r \<noteq> Inr () \<and> h' = (h @ prologue ''perl-libs'' env d) @ [Rewrite ''perl'' cpan]) \<or>
             (\<exists>items.
                for_each (\<lambda>lib. thn (run w (''cpanm '' @ (if use_sudo env then ''--sudo'' else []) @
                                   '' --skip-installed --notest '' @ lib @ '' < /dev/null''))
                               (ret ())) items
                  ((h @ prologue ''perl-libs'' env d) @ [Rewrite ''perl'' cpan]) = (r, h'))))"
  using assms
  unfolding perl_library_installer_def cfg_list_def rewrite_config_items_def Let_def
  by (auto simp: act_apply prologue_def hook_calls_def
           split: sum.splits option.splits prod.splits)

lemma perl_hook:
  assumes "perl_library_installer w env cfg h = (r, h')"
  shows "\<exists>tr. h' = h @ tr \<and>
     ((r \<noteq> Inr () \<and> hook_calls tr = []) \<or>
      (\<exists>d items rest. tr = prologue ''perl-libs'' env d @ Rewrite ''perl'' items # rest \<and>
          lists cfg ''cpan'' = Some items \<and> hook_calls tr = [Rewrite ''perl'' items]))"
proof -
  let ?loop = "\<lambda>items. for_each (\<lambda>lib.
       thn (run w (''cpanm '' @ (if use_sudo env then ''--sudo'' else []) @
                   '' --skip-installed --notest '' @ lib @ '' < /dev/null'')) (ret ())) items"
  have loop: "hookless (?loop items)" for items
    by (intro hookless_intros)
  have pro: "hook_calls (prologue ''perl-libs'' env d) = []" for d
    by (simp add: prologue_def hook_calls_def)
  from perl_hook_run [OF assms] consider
      (early) tr where "r \<noteq> Inr ()" "h' = h @ tr" "hook_calls tr = []"
    | (hook) d cpan where "lists cfg ''cpan'' = Some cpan" "r \<noteq> Inr ()"
        "h' = (h @ prologue ''perl-libs'' env d) @ [Rewrite ''perl'' cpan]"
    | (items) d cpan items where "lists cfg ''cpan'' = Some cpan"
        "?loop items ((h @ prologue ''perl-libs'' env d) @ [Rewrite ''perl'' cpan]) = (r, h')"
    by auto
  then show ?thesis
  proof cases
    case early
    then show ?thesis by auto
  next
    case hook
    have "hook_calls (prologue ''perl-libs'' env d @ [Rewrite ''perl'' cpan]) =
          [Rewrite ''perl'' cpan]"
      using pro[of d] by (simp add: hook_calls_def)
    then show ?thesis using hook by (intro exI[of _ "prologue ''perl-libs'' env d @ [Rewrite ''perl'' cpan]"]) auto
  next
    case items
    from after_hook [OF loop items(2)] obtain rest
      where rest: "h' = (h @ prologue ''perl-libs'' env d) @ Rewrite ''perl'' cpan # rest"
        "hook_calls (Rewrite ''perl'' cpan # rest) = [Rewrite ''perl'' cpan]"
      by blast
    have "hook_calls (prologue ''perl-libs'' env d @ Rewrite ''perl'' cpan # rest) =
          [Rewrite ''perl'' cpan]"
      using pro[of d] rest(2) by (simp add: hook_calls_def)
    then show ?thesis
      using rest(1) items(1)
      by (intro exI[of _ "prologue ''perl-libs'' env d @ Rewrite ''perl'' cpan # rest"]) auto
  qed
qed

lemma lib_installers_cases:
  assumes "lib_installers name = Some installer"
  shows "(name = ''r-libs'' \<and> installer = r_library_installer)
       \<or> (name = ''python-libs'' \<and> installer = python_library_installer)
       \<or> (name = ''ruby-libs'' \<and> installer = ruby_library_installer)
       \<or> (name = ''perl-libs'' \<and> installer = perl_library_installer)
       \<or> (name = ''clojure-libs'' \<and> installer = clojure_library_installer)
       \<or> (name = ''haskell-libs'' \<and> installer = haskell_library_installer)"
  using assms unfolding lib_installers_def
  by (simp split: if_splits)

text \<open>
  C6, as the code has it. Take an installer of the dispatch table and one run of it.
  \<^item> The installers of \<open>r-libs\<close>, \<open>clojure-libs\<close> and \<open>haskell-libs\<close> (those for which
    \<open>hook_use\<close> has no entry) never call \<open>rewrite_config_items\<close>.
  \<^item> The installers of \<open>python-libs\<close>, \<open>ruby-libs\<close> and \<open>perl-libs\<close> call it at most
    once, and exactly once in a run that returns. The call comes right after the
    installer's own first commands (\<open>prologue\<close>), with the installer's category and the
    list that the loaded configuration has under the installer's key, and every command
    for an item of the list comes after it.
\<close>

theorem library_installers_hook:
  assumes "lib_installers name = Some installer"
    and "installer w env cfg h = (r, h')"
  shows "\<exists>tr. h' = h @ tr \<and>
     (case hook_use name of
        None \<Rightarrow> hook_calls tr = []
      | Some (category, key) \<Rightarrow>
          (r \<noteq> Inr () \<and> hook_calls tr = []) \<or>
          (\<exists>d items rest.
              tr = prologue name env d @ Rewrite category items # rest \<and>
              lists cfg key = Some items \<and>
              hook_calls tr = [Rewrite category items]))"
proof -
  note table = lib_installers_cases [OF assms(1)]
  have none: "hook_use ''r-libs'' = None" "hook_use ''clojure-libs'' = None"
    "hook_use ''haskell-libs'' = None"
    by (simp_all add: hook_use_def)
  have some: "hook_use ''python-libs'' = Some (''python'', ''pypi'')"
    "hook_use ''ruby-libs'' = Some (''ruby'', ''gems'')"
    "hook_use ''perl-libs'' = Some (''perl'', ''cpan'')"
    by (simp_all add: hook_use_def)
  from table show ?thesis
  proof (elim disjE conjE)
    assume c: "name = ''r-libs''" "installer = r_library_installer"
    have "\<exists>tr. h' = h @ tr \<and> hook_calls tr = []"
      using assms(2) hookless_r [of w env cfg] unfolding hookless_def c by blast
    then show ?thesis unfolding c none by simp
  next
    assume c: "name = ''python-libs''" "installer = python_library_installer"
    show ?thesis
      using python_hook [of w env cfg h r h'] assms(2) unfolding c some by simp
  next
    assume c: "name = ''ruby-libs''" "installer = ruby_library_installer"
    show ?thesis
      using ruby_hook [of w env cfg h r h'] assms(2) unfolding c some by simp
  next
    assume c: "name = ''perl-libs''" "installer = perl_library_installer"
    show ?thesis
      using perl_hook [of w env cfg h r h'] assms(2) unfolding c some by simp
  next
    assume c: "name = ''clojure-libs''" "installer = clojure_library_installer"
    have "\<exists>tr. h' = h @ tr \<and> hook_calls tr = []"
      using assms(2) hookless_clojure [of w env cfg] unfolding hookless_def c by blast
    then show ?thesis unfolding c none by simp
  next
    assume c: "name = ''haskell-libs''" "installer = haskell_library_installer"
    have "\<exists>tr. h' = h @ tr \<and> hook_calls tr = []"
      using assms(2) hookless_haskell [of w env cfg] unfolding hookless_def c by blast
    then show ?thesis unfolding c none by simp
  qed
qed

text \<open>
  The theorem at the Python installer, run on a configuration with two packages in a
  world where every command succeeds.
\<close>

theorem library_installers_hook_witness:
  "lib_installers ''python-libs'' = Some python_library_installer
 \<and> python_library_installer quiet_world example_env
      \<lparr> strs = Map.empty, lists = [''pypi'' \<mapsto> [''numpy'', ''biopython'']] \<rparr> []
   = (Inr (),
      [SafeSudo ''easy_install -U pip'',
       Rewrite ''python'' [''numpy'', ''biopython''],
       SafeSudo ''pip install --upgrade numpy'',
       SafeSudo ''pip install --upgrade biopython''])
 \<and> hook_calls (snd (python_library_installer quiet_world example_env
      \<lparr> strs = Map.empty, lists = [''pypi'' \<mapsto> [''numpy'', ''biopython'']] \<rparr> []))
   = [Rewrite ''python'' [''numpy'', ''biopython'']]"
proof -
  let ?cfg = "\<lparr> strs = Map.empty, lists = [''pypi'' \<mapsto> [''numpy'', ''biopython'']] \<rparr>"
  let ?run = "python_library_installer quiet_world example_env ?cfg []"
  have table: "lib_installers ''python-libs'' = Some python_library_installer"
    by (simp add: lib_installers_def)
  have run: "?run =
      (Inr (),
       [SafeSudo ''easy_install -U pip'',
        Rewrite ''python'' [''numpy'', ''biopython''],
        SafeSudo ''pip install --upgrade numpy'',
        SafeSudo ''pip install --upgrade biopython''])"
    by (simp add: python_library_installer_def quiet_world_def example_env_def act_apply
          safe_sudo_def cfg_list_def rewrite_config_items_def)
  from library_installers_hook [OF table run]
  obtain tr where tr: "snd ?run = [] @ tr"
      "(Inr () \<noteq> (Inr () :: exn + unit) \<and> hook_calls tr = []) \<or>
       (\<exists>d items rest.
           tr = prologue ''python-libs'' example_env d @ Rewrite ''python'' items # rest \<and>
           lists ?cfg ''pypi'' = Some items \<and> hook_calls tr = [Rewrite ''python'' items])"
    unfolding run by (auto simp: hook_use_def)
  then have "hook_calls (snd ?run) = [Rewrite ''python'' [''numpy'', ''biopython'']]"
    by auto
  then show ?thesis using table run by simp
qed

text \<open>
  C6 as the claim states it fails for three of the six installers: the runs of the R,
  Clojure and Haskell installers below return, and the hook is not among their events.
\<close>

theorem library_installers_without_hook:
  "lib_installers ''r-libs'' = Some r_library_installer
 \<and> r_library_installer quiet_world example_env
      \<lparr> strs = [''cranrepo'' \<mapsto> ''http://cran.r-project.org'',
                ''biocrepo'' \<mapsto> ''http://bioconductor.org/biocLite.R''],
        lists = [''cran'' \<mapsto> [''ggplot2''], ''bioc'' \<mapsto> [''limma'']] \<rparr> []
   = (Inr (),
      [Exists ''install_packages.R'',
       Run ''rm -f install_packages.R'',
       Run ''touch install_packages.R'',
       Append ''install_packages.R''
         (repo_info ''http://cran.r-project.org'' ''http://bioconductor.org/biocLite.R''),
       Append ''install_packages.R'' install_fn,
       Append ''install_packages.R'' (std_install [''ggplot2'']),
       Append ''install_packages.R'' (bioc_install [''limma'']),
       Append ''install_packages.R'' final_update,
       SafeSudo ''Rscript install_packages.R'',
       Run ''rm -f install_packages.R''])
 \<and> lib_installers ''clojure-libs'' = Some clojure_library_installer
 \<and> clojure_library_installer quiet_world example_env
      \<lparr> strs = Map.empty, lists = [''cljr'' \<mapsto> [''incanter'']] \<rparr> []
   = (Inr (), [Run ''cljr install incanter''])
 \<and> lib_installers ''haskell-libs'' = Some haskell_library_installer
 \<and> haskell_library_installer quiet_world example_env
      \<lparr> strs = Map.empty, lists = [''cabal'' \<mapsto> [''pandoc'']] \<rparr> []
   = (Inr (), [Run ''cabal update'', Run ''cabal install --root-cmd=sudo --global pandoc''])"
  by (simp add: lib_installers_def r_library_installer_def clojure_library_installer_def
        haskell_library_installer_def quiet_world_def example_env_def act_apply when_do_def
        run_def safe_sudo_def append_file_def cfg_str_def cfg_list_def Let_def)

subsection \<open>The Ruby installer\<close>

lemma ruby_loop_steps:
  assumes "ruby_loop w env gems installed h = (Inr (), h')"
  shows "\<exists>tr. h' = h @ tr \<and> gem_steps w env gems installed h tr"
  using assms
proof (induction gems arbitrary: installed h)
  case Nil
  then show ?case by (simp add: ret_def)
next
  case (Cons gem gems)
  show ?case
  proof (cases "gem \<in> set installed")
    case True
    let ?e = "SafeSudo (gem_update_cmd env gem)"
    from Cons.prems True have "ruby_loop w env gems installed (h @ [?e]) = (Inr (), h')"
      by (auto simp: act_apply safe_sudo_def split: sum.splits)
    from Cons.IH [OF this] obtain tr
      where "h' = (h @ [?e]) @ tr" "gem_steps w env gems installed (h @ [?e]) tr"
      by blast
    then show ?thesis using True by (intro exI[of _ "?e # tr"]) simp
  next
    case False
    let ?q = "Run (gem_list_cmd env)"
    from Cons.prems False obtain gem_info where q: "w_str w h ?q = Inr gem_info"
      by (auto simp: act_apply cur_gems_def run_def split: sum.splits)
    let ?now = "gem_lines gem_info"
    let ?e = "SafeSudo (if gem \<in> set ?now then gem_update_cmd env gem
                        else gem_install_cmd env gem)"
    from Cons.prems False q have "ruby_loop w env gems ?now (h @ [?q, ?e]) = (Inr (), h')"
      by (auto simp: act_apply cur_gems_def run_def safe_sudo_def split: sum.splits if_splits)
    from Cons.IH [OF this] obtain tr
      where "h' = (h @ [?q, ?e]) @ tr" "gem_steps w env gems ?now (h @ [?q, ?e]) tr"
      by blast
    then show ?thesis using False q by (intro exI[of _ "?q # ?e # tr"]) simp
  qed
qed

text \<open>
  C7. Every run of the Ruby installer begins with the query of the installed gems. In
  a run that returns, the query is followed by the call of the hook with the configured
  gems, and then by the steps for the gems that the hook returned, starting from the
  answer to the first query: for a gem found in the current list the one command
  \<open>gem update\<close>, with no new query; for a gem not found in it a new query, whose
  answer becomes the current list, and then \<open>gem update\<close> when the gem is in the answer
  and \<open>gem install\<close> when it is not.
\<close>

theorem ruby_installer_steps:
  assumes "ruby_library_installer w env cfg h = (r, h')"
  shows "\<exists>tr. h' = h @ Run (gem_list_cmd env) # tr \<and>
     (r = Inr () \<longrightarrow>
        (\<exists>gem_info gems items rest.
            w_str w h (Run (gem_list_cmd env)) = Inr gem_info \<and>
            lists cfg ''gems'' = Some gems \<and>
            w_list w (h @ [Run (gem_list_cmd env)]) (Rewrite ''ruby'' gems) = Inr items \<and>
            tr = Rewrite ''ruby'' gems # rest \<and>
            gem_steps w env items (gem_lines gem_info)
              (h @ [Run (gem_list_cmd env), Rewrite ''ruby'' gems]) rest))"
proof -
  let ?q = "Run (gem_list_cmd env)"
  from ruby_hook_run [OF assms] consider
      (query) "r \<noteq> Inr ()" "h' = h @ [?q]"
    | (hook) gems where "r \<noteq> Inr ()" "h' = h @ [?q, Rewrite ''ruby'' gems]"
    | (loop) gem_info gems items where
        "w_str w h ?q = Inr gem_info" "lists cfg ''gems'' = Some gems"
        "w_list w (h @ [?q]) (Rewrite ''ruby'' gems) = Inr items"
        "ruby_loop w env items (gem_lines gem_info) (h @ [?q, Rewrite ''ruby'' gems]) = (r, h')"
    by auto
  then show ?thesis
  proof cases
    case query
    then show ?thesis by simp
  next
    case hook
    then show ?thesis by simp
  next
    case loop
    from hookless_ruby_loop [of w env items "gem_lines gem_info"] loop(4)
    obtain rest where rest: "h' = (h @ [?q, Rewrite ''ruby'' gems]) @ rest"
      unfolding hookless_def by blast
    show ?thesis
    proof (cases "r = Inr ()")
      case False
      then show ?thesis using rest by simp
    next
      case True
      with loop(4) ruby_loop_steps [of w env items "gem_lines gem_info"
          "h @ [?q, Rewrite ''ruby'' gems]" h']
      obtain tr where "h' = (h @ [?q, Rewrite ''ruby'' gems]) @ tr"
        "gem_steps w env items (gem_lines gem_info) (h @ [?q, Rewrite ''ruby'' gems]) tr"
        by blast
      then show ?thesis using loop(1-3) by auto
    qed
  qed
qed

text \<open>
  The theorem in a world where the first query answers \<open>rake\<close> and every later one
  \<open>rake\<close> and \<open>bio\<close>, for the gems \<open>rake\<close>, \<open>bio\<close> and \<open>thor\<close>: \<open>rake\<close> is updated without
  a query, \<open>bio\<close> is updated after a query, \<open>thor\<close> is installed after a query.
\<close>

theorem ruby_installer_steps_witness:
  "ruby_library_installer
     (quiet_world \<lparr> w_str := (\<lambda>h ev.
        Inr (if Run ''gem list --no-versions'' \<in> set h then ''rake\<newline>bio'' else ''rake'')) \<rparr>)
     example_env \<lparr> strs = Map.empty, lists = [''gems'' \<mapsto> [''rake'', ''bio'', ''thor'']] \<rparr> []
   = (Inr (),
      [Run ''gem list --no-versions'',
       Rewrite ''ruby'' [''rake'', ''bio'', ''thor''],
       SafeSudo ''gem update rake'',
       Run ''gem list --no-versions'',
       SafeSudo ''gem update bio'',
       Run ''gem list --no-versions'',
       SafeSudo ''gem install thor''])
 \<and> gem_steps
     (quiet_world \<lparr> w_str := (\<lambda>h ev.
        Inr (if Run ''gem list --no-versions'' \<in> set h then ''rake\<newline>bio'' else ''rake'')) \<rparr>)
     example_env [''rake'', ''bio'', ''thor''] [''rake'']
     [Run ''gem list --no-versions'', Rewrite ''ruby'' [''rake'', ''bio'', ''thor'']]
     [SafeSudo ''gem update rake'',
      Run ''gem list --no-versions'',
      SafeSudo ''gem update bio'',
      Run ''gem list --no-versions'',
      SafeSudo ''gem install thor'']"
proof -
  let ?w = "quiet_world \<lparr> w_str := (\<lambda>h ev.
        Inr (if Run ''gem list --no-versions'' \<in> set h then ''rake\<newline>bio'' else ''rake'')) \<rparr>"
  let ?cfg = "\<lparr> strs = Map.empty, lists = [''gems'' \<mapsto> [''rake'', ''bio'', ''thor'']] \<rparr>"
  let ?q = "Run ''gem list --no-versions''"
  let ?tail = "[SafeSudo ''gem update rake'', ?q, SafeSudo ''gem update bio'', ?q,
                SafeSudo ''gem install thor'']"
  have ext: "gem_ext example_env = []"
    by (simp add: gem_ext_def example_env_def)
  have cmd: "gem_list_cmd example_env = ''gem list --no-versions''"
    by (simp add: gem_list_cmd_def ext)
  have lines: "gem_lines ''rake'' = [''rake'']" "gem_lines ''rake\<newline>bio'' = [''rake'', ''bio'']"
    by (simp_all add: gem_lines_def rstrip_cr_def)
  have run: "ruby_library_installer ?w example_env ?cfg [] =
      (Inr (), ?q # Rewrite ''ruby'' [''rake'', ''bio'', ''thor''] # ?tail)"
    by (simp add: ruby_library_installer_def cur_gems_def run_def safe_sudo_def cfg_list_def
          rewrite_config_items_def act_apply quiet_world_def cmd lines gem_update_cmd_def
          gem_install_cmd_def ext)
  have first: "w_str ?w [] (Run (gem_list_cmd example_env)) = Inr ''rake''"
    by (simp add: cmd)
  have hook: "w_list ?w ([] @ [Run (gem_list_cmd example_env)])
                (Rewrite ''ruby'' [''rake'', ''bio'', ''thor'']) = Inr [''rake'', ''bio'', ''thor'']"
    by (simp add: quiet_world_def)
  from ruby_installer_steps [OF run] first hook
  have "gem_steps ?w example_env [''rake'', ''bio'', ''thor''] (gem_lines ''rake'')
          ([] @ [Run (gem_list_cmd example_env), Rewrite ''ruby'' [''rake'', ''bio'', ''thor'']])
          ?tail"
    by (auto simp: cmd)
  then show ?thesis
    using run by (simp add: cmd lines)
qed

end
